theory Spec2Isabelle
  imports Main "HOL-Library.Word"
begin

section \<open>The execution data requester\<close>

text \<open>
  A shallow embedding of the execution data requester (package \<open>requester\<close>): the
  fetch worker, the retry wrapper, the notification worker, the startup datastore
  check and the bootstrap worker. Everything the component does to its collaborators
  (metrics, the status cache, the execution data service, the blob service, the
  subscribers, the job queue) is recorded as an event of a trace, in program order.
\<close>

subsection \<open>Errors\<close>

text \<open>
  Go errors form chains: \<open>fmt.Errorf("...: %w", err)\<close> wraps \<open>err\<close>, and a
  multierror holds a list of errors. \<open>errors.Is\<close> and \<open>errors.As\<close> walk the chain.
  The typed errors of the execution data service carry no payload here: the requester
  only asks for their type.
\<close>

datatype error =
    MalformedDataError
  | BlobSizeLimitExceededError
  | ErrBlobTreeDepthExceeded
  | BlobNotFoundError
  | DeadlineExceeded
  | Canceled
  | ErrNotFound
  | ErrHashMismatch
  | ErrRequesterHalted
  | Other string
  | Errorf string error
  | MultiError "error list"

fun errors_Is :: "error \<Rightarrow> error \<Rightarrow> bool" where
  "errors_Is (Errorf m e) target = (Errorf m e = target \<or> errors_Is e target)"
| "errors_Is (MultiError es) target =
     (MultiError es = target \<or> list_ex (\<lambda>e. errors_Is e target) es)"
| "errors_Is e target = (e = target)"

text \<open>A nilable Go error is an \<open>error option\<close>; \<open>errors.Is(nil, t)\<close> is false.\<close>

definition errors_Is_opt :: "error option \<Rightarrow> error \<Rightarrow> bool" where
  "errors_Is_opt err target = (case err of None \<Rightarrow> False | Some e \<Rightarrow> errors_Is e target)"

definition isInvalidBlobError :: "error option \<Rightarrow> bool" where
  "isInvalidBlobError err =
     (errors_Is_opt err MalformedDataError \<or>
      errors_Is_opt err BlobSizeLimitExceededError \<or>
      errors_Is_opt err ErrBlobTreeDepthExceeded)"

definition isBlobNotFoundError :: "error option \<Rightarrow> bool" where
  "isBlobNotFoundError err = errors_Is_opt err BlobNotFoundError"

subsection \<open>Data\<close>

type_synonym flow_id = nat
type_synonym cid = nat
type_synonym height = "64 word"
type_synonym duration = int
type_synonym execution_data = nat
type_synonym callback = nat

record ExecutionDataConfig =
  StartBlockHeight :: height
  MaxCachedEntries :: "64 word"
  MaxSearchAhead :: "64 word"
  FetchTimeout :: duration
  RetryDelay :: duration
  MaxRetryDelay :: duration
  CheckEnabled :: bool

record BlockEntry =
  BlockID :: flow_id
  Height :: height
  ExecutionData :: "execution_data option"

record Block =
  block_ID :: flow_id
  block_Height :: height

record ExecutionResult =
  ExecutionDataID :: flow_id

text \<open>
  The two contexts of the component: the worker's signaler context, and the context
  \<open>fetchExecutionData\<close> derives from it with the fetch timeout as deadline.
\<close>

datatype ctx = SignalerCtx | WithTimeout duration

datatype event =
    MetricFetchStarted
  | MetricFetchFinished bool height
  | MetricFetchRetried
  | MetricHalted
  | MetricNotificationSent height
  | StatusHalt
  | StatusFetched BlockEntry
  | EdsGet ctx flow_id
  | EdsAdd ctx execution_data
  | DeleteBlob cid
  | Callback callback execution_data
  | Sleep duration
  | JobComplete
  | WorkerReady
  | LogHalting

text \<open>
  The collaborators, as oracles. Calls whose answer may change over time
  (\<open>eds.Get\<close>, \<open>eds.Add\<close>, \<open>ctx.Err\<close>, the jitter's random source) take the number of
  \<open>eds.Get\<close> calls the component has made so far.
\<close>

record env =
  results_ByBlockID :: "flow_id \<Rightarrow> error + ExecutionResult"
  blocks_ByHeight :: "height \<Rightarrow> error + Block"
  eds_Get :: "nat \<Rightarrow> ctx \<Rightarrow> flow_id \<Rightarrow> error + execution_data"
  eds_Add :: "nat \<Rightarrow> ctx \<Rightarrow> execution_data \<Rightarrow> error option"
  eds_Check :: "flow_id \<Rightarrow> (cid \<times> error) list \<times> bool"
  bs_DeleteBlob :: "cid \<Rightarrow> error option"
  ctx_Err :: "nat \<Rightarrow> error option"
  status_Load :: "error + (height \<times> bool)"
  rand_Int63n :: "nat \<Rightarrow> nat"

text \<open>
  The mutable state: the trace of effects, the number of \<open>eds.Get\<close> calls, the status
  cache's halted flag and last notified height, and the list of subscribers.
\<close>

record state =
  trace :: "event list"
  gets :: nat
  halted :: bool
  lastNotified :: height
  consumers :: "callback list"

definition emit :: "event \<Rightarrow> state \<Rightarrow> state" where
  "emit ev st = st\<lparr>trace := trace st @ [ev]\<rparr>"

text \<open>
  Modelled from the spec: \<open>ctx.Throw\<close> of the irrecoverable signaler context is not
  among the sources. The error is thrown to the parent scope as a fatal signal and the
  worker does not continue: a function that throws ends with \<open>Throw err\<close>.
\<close>

datatype 'a result = Return 'a | Throw error

text \<open>
  Modelled from the spec: \<open>status.Halt\<close> is not among the sources. It sets the halted
  flag (and persists it).
\<close>

definition status_Halt :: "state \<Rightarrow> state" where
  "status_Halt st = (emit StatusHalt st)\<lparr>halted := True\<rparr>"

subsection \<open>Subscribers\<close>

definition AddOnExecutionDataFetchedConsumer :: "callback \<Rightarrow> state \<Rightarrow> state" where
  "AddOnExecutionDataFetchedConsumer fn st = st\<lparr>consumers := consumers st @ [fn]\<rparr>"

fun notifyLoop :: "callback list \<Rightarrow> execution_data \<Rightarrow> state \<Rightarrow> state" where
  "notifyLoop [] executionData st = st"
| "notifyLoop (fn # fns) executionData st =
     notifyLoop fns executionData (emit (Callback fn executionData) st)"

definition notifyConsumers :: "execution_data \<Rightarrow> state \<Rightarrow> state" where
  "notifyConsumers executionData st = notifyLoop (consumers st) executionData st"

subsection \<open>Fetching\<close>

definition fetchExecutionData ::
  "env \<Rightarrow> ExecutionDataConfig \<Rightarrow> state \<Rightarrow> flow_id \<Rightarrow> height
    \<Rightarrow> state \<times> (error + execution_data)" where
  "fetchExecutionData e cfg st executionDataID h =
     (let tctx = WithTimeout (FetchTimeout cfg);
          k = gets st;
          st1 = emit MetricFetchStarted st;
          st2 = (emit (EdsGet tctx executionDataID) st1)\<lparr>gets := Suc k\<rparr>
      in case eds_Get e k tctx executionDataID of
           Inl err \<Rightarrow> (emit (MetricFetchFinished False h) st2, Inl err)
         | Inr executionData \<Rightarrow>
             (let st3 = emit (EdsAdd SignalerCtx executionData) st2
              in case eds_Add e k SignalerCtx executionData of
                   Some err \<Rightarrow>
                     (emit (MetricFetchFinished False h) st3,
                      Inl (Errorf ''failed to write execution data to blobstore'' err))
                 | None \<Rightarrow> (emit (MetricFetchFinished True h) st3, Inr executionData)))"

definition processFetchRequest ::
  "env \<Rightarrow> ExecutionDataConfig \<Rightarrow> state \<Rightarrow> BlockEntry \<Rightarrow> state \<times> error option result" where
  "processFetchRequest e cfg st request =
     (case results_ByBlockID e (BlockID request) of
        Inl err \<Rightarrow> (st, Throw (Errorf ''failed to lookup execution result for block'' err))
      | Inr res \<Rightarrow>
          (case fetchExecutionData e cfg st (ExecutionDataID res) (Height request) of
             (st1, Inl err) \<Rightarrow>
               if isInvalidBlobError (Some err) then
                 (emit MetricHalted (status_Halt st1), Throw ErrRequesterHalted)
               else if isBlobNotFoundError (Some err) \<or> errors_Is err DeadlineExceeded
                       \<or> errors_Is err Canceled then
                 (st1, Return (Some err))
               else (st1, Throw err)
           | (st1, Inr executionData) \<Rightarrow>
               (emit (StatusFetched (request\<lparr>ExecutionData := Some executionData\<rparr>)) st1,
                Return None)))"

subsection \<open>Notifications\<close>

text \<open>
  \<open>processNotification\<close> gets the entry's execution data again when the cache has
  purged it, and throws when that fails.
\<close>

definition processNotification :: "env \<Rightarrow> state \<Rightarrow> BlockEntry \<Rightarrow> state \<times> unit result" where
  "processNotification e st entry =
     (case ExecutionData entry of
        Some executionData \<Rightarrow>
          (emit (MetricNotificationSent (Height entry)) (notifyConsumers executionData st),
           Return ())
      | None \<Rightarrow>
          (case results_ByBlockID e (BlockID entry) of
             Inl err \<Rightarrow> (st, Throw (Errorf ''failed to lookup execution result for block'' err))
           | Inr res \<Rightarrow>
               (let k = gets st;
                    st1 = (emit (EdsGet SignalerCtx (ExecutionDataID res)) st)\<lparr>gets := Suc k\<rparr>
                in case eds_Get e k SignalerCtx (ExecutionDataID res) of
                     Inl err \<Rightarrow>
                       (st1, Throw (Errorf ''failed to get execution data for block'' err))
                   | Inr executionData \<Rightarrow>
                       (emit (MetricNotificationSent (Height entry))
                          (notifyConsumers executionData st1),
                        Return ()))))"

text \<open>
  The job handed to \<open>processNotificationJob\<close> converts to a block entry or to an error
  (\<open>status.JobToBlockEntry\<close>).
\<close>

definition processNotificationJob ::
  "env \<Rightarrow> state \<Rightarrow> error + BlockEntry \<Rightarrow> state \<times> unit result" where
  "processNotificationJob e st job =
     (case job of
        Inl err \<Rightarrow> (st, Throw (Errorf ''failed to convert job to entry'' err))
      | Inr entry \<Rightarrow>
          (case processNotification e st entry of
             (st1, Throw err) \<Rightarrow> (st1, Throw err)
           | (st1, Return u) \<Rightarrow> (emit JobComplete st1, Return ())))"

subsection \<open>The retry wrapper\<close>

text \<open>
  Modelled from the spec: the backoff and the retry loop are the retry library's
  (\<open>retry.NewExponential\<close>, \<open>retry.WithCappedDuration\<close>, \<open>retry.WithJitterPercent\<close>,
  \<open>retry.Do\<close>), which is not among the sources. The delay starts at the base, doubles
  per attempt, is capped, and then jittered by a random percentage between -15 and 15.
  Durations are nanoseconds, as unbounded integers.
\<close>

definition exponential :: "duration \<Rightarrow> nat \<Rightarrow> duration" where
  "exponential base k = base * 2 ^ k"

definition WithCappedDuration :: "duration \<Rightarrow> duration \<Rightarrow> duration" where
  "WithCappedDuration cap val = min cap val"

definition WithJitterPercent :: "nat \<Rightarrow> nat \<Rightarrow> duration \<Rightarrow> duration" where
  "WithJitterPercent j r val =
     (let top = int (r mod (2 * j)) - int j in max 0 (val * (100 - top) div 100))"

definition backoff_Next :: "env \<Rightarrow> ExecutionDataConfig \<Rightarrow> nat \<Rightarrow> nat \<Rightarrow> duration" where
  "backoff_Next e cfg k n =
     WithJitterPercent 15 (rand_Int63n e n)
       (WithCappedDuration (MaxRetryDelay cfg) (exponential (RetryDelay cfg) k))"

text \<open>
  \<open>retry.Do\<close> with the closure of \<open>processSealedHeight\<close> as its body: the closure calls
  \<open>processFetchRequest\<close>, records the retry metric when \<open>attempt > 0\<close>, increments
  \<open>attempt\<close> and returns the error as retryable. The loop runs until the closure returns
  nil or the context is done, so it takes fuel: \<open>None\<close> is a loop that is still retrying
  when the fuel is used up.
\<close>

fun retry_Do ::
  "nat \<Rightarrow> env \<Rightarrow> ExecutionDataConfig \<Rightarrow> nat \<Rightarrow> state \<Rightarrow> BlockEntry
    \<Rightarrow> state \<times> error option result option" where
  "retry_Do 0 e cfg attempt st request = (st, None)"
| "retry_Do (Suc fuel) e cfg attempt st request =
     (case ctx_Err e (gets st) of
        Some cerr \<Rightarrow> (st, Some (Return (Some cerr)))
      | None \<Rightarrow>
          (case processFetchRequest e cfg st request of
             (st1, Throw err) \<Rightarrow> (st1, Some (Throw err))
           | (st1, Return err) \<Rightarrow>
               (let st2 = (if attempt > 0 then emit MetricFetchRetried st1 else st1)
                in case err of
                     None \<Rightarrow> (st2, Some (Return None))
                   | Some err' \<Rightarrow>
                       (case ctx_Err e (gets st2) of
                          Some cerr \<Rightarrow> (st2, Some (Return (Some cerr)))
                        | None \<Rightarrow>
                            retry_Do fuel e cfg (Suc attempt)
                              (emit (Sleep (backoff_Next e cfg attempt (gets st2))) st2)
                              request))))"

definition processSealedHeight ::
  "nat \<Rightarrow> env \<Rightarrow> ExecutionDataConfig \<Rightarrow> state \<Rightarrow> BlockEntry
    \<Rightarrow> state \<times> error option result option" where
  "processSealedHeight fuel e cfg st request =
     (if RetryDelay cfg \<le> 0 then
        (st, Some (Throw (Errorf ''failed to create retry mechanism''
                            (Other ''base must be greater than 0''))))
      else retry_Do fuel e cfg 0 st request)"

text \<open>
  The job handed to \<open>processBlockJob\<close> converts to a block or to an error
  (\<open>status.JobToBlock\<close>). \<open>complete\<close> is called when \<open>processSealedHeight\<close> returns nil.
\<close>

definition processBlockJob ::
  "nat \<Rightarrow> env \<Rightarrow> ExecutionDataConfig \<Rightarrow> state \<Rightarrow> error + Block
    \<Rightarrow> state \<times> unit result option" where
  "processBlockJob fuel e cfg st job =
     (case job of
        Inl err \<Rightarrow> (st, Some (Throw (Errorf ''failed to convert job to block'' err)))
      | Inr block \<Rightarrow>
          (case processSealedHeight fuel e cfg st
                  \<lparr>BlockID = block_ID block, Height = block_Height block,
                   ExecutionData = None\<rparr> of
             (st1, None) \<Rightarrow> (st1, None)
           | (st1, Some (Throw err)) \<Rightarrow> (st1, Some (Throw err))
           | (st1, Some (Return None)) \<Rightarrow> (emit JobComplete st1, Some (Return ()))
           | (st1, Some (Return (Some err))) \<Rightarrow> (st1, Some (Return ()))))"

subsection \<open>The startup datastore check\<close>

definition ErrorOrNil :: "error list \<Rightarrow> error option" where
  "ErrorOrNil errs = (if errs = [] then None else Some (MultiError errs))"

text \<open>The loop of \<open>checkExecutionData\<close> over the CIDs that \<open>Check\<close> reported.\<close>

fun checkCIDs ::
  "env \<Rightarrow> state \<Rightarrow> (cid \<times> error) list \<Rightarrow> bool \<Rightarrow> error list
    \<Rightarrow> state \<times> bool \<times> error option" where
  "checkCIDs e st [] missing errs = (st, missing, ErrorOrNil errs)"
| "checkCIDs e st ((c, err) # rest) missing errs =
     (if errors_Is err ErrNotFound then checkCIDs e st rest True errs
      else if errors_Is err ErrHashMismatch then
        (case bs_DeleteBlob e c of
           Some derr \<Rightarrow>
             (emit (DeleteBlob c) st, False,
              Some (Errorf ''failed to delete corrupted CID'' derr))
         | None \<Rightarrow> checkCIDs e (emit (DeleteBlob c) st) rest True errs)
      else if isInvalidBlobError (Some err) then (st, False, Some ErrRequesterHalted)
      else checkCIDs e st rest missing (errs @ [err]))"

definition checkExecutionData :: "env \<Rightarrow> state \<Rightarrow> flow_id \<Rightarrow> state \<times> bool \<times> error option" where
  "checkExecutionData e st rootID =
     (case eds_Check e rootID of
        (invalidCIDs, ok) \<Rightarrow>
          if ok then (st, True, None) else checkCIDs e st invalidCIDs False [])"

text \<open>
  The loop of \<open>checkDatastore\<close> over the heights from the start height to the last
  height, on 64-bit heights. It takes fuel, for the retry wrapper it calls and for
  itself (\<open>height <= lastHeight\<close> never fails when \<open>lastHeight\<close> is the largest height).
\<close>

fun checkHeights ::
  "nat \<Rightarrow> env \<Rightarrow> ExecutionDataConfig \<Rightarrow> state \<Rightarrow> height \<Rightarrow> height
    \<Rightarrow> state \<times> error option result option" where
  "checkHeights 0 e cfg st h lastHeight = (st, None)"
| "checkHeights (Suc fuel) e cfg st h lastHeight =
     (if \<not> h \<le> lastHeight then (st, Some (Return None))
      else if ctx_Err e (gets st) \<noteq> None then (st, Some (Return None))
      else
        (case blocks_ByHeight e h of
           Inl err \<Rightarrow> (st, Some (Return (Some (Errorf ''failed to get block for height'' err))))
         | Inr block \<Rightarrow>
             (case results_ByBlockID e (block_ID block) of
                Inl err \<Rightarrow>
                  (st, Some (Return (Some
                     (Errorf ''failed to lookup execution result for block'' err))))
              | Inr res \<Rightarrow>
                  (case checkExecutionData e st (ExecutionDataID res) of
                     (st1, exists, err) \<Rightarrow>
                       if errors_Is_opt err ErrRequesterHalted then
                         (emit MetricHalted (status_Halt st1), Some (Throw ErrRequesterHalted))
                       else if err \<noteq> None then (st1, Some (Return err))
                       else if \<not> exists then
                         (case processSealedHeight fuel e cfg st1
                                 \<lparr>BlockID = block_ID block, Height = h,
                                  ExecutionData = None\<rparr> of
                            (st2, None) \<Rightarrow> (st2, None)
                          | (st2, Some (Throw terr)) \<Rightarrow> (st2, Some (Throw terr))
                          | (st2, Some (Return r)) \<Rightarrow>
                              checkHeights fuel e cfg st2 (h + 1) lastHeight)
                       else checkHeights fuel e cfg st1 (h + 1) lastHeight))))"

text \<open>
  \<open>localExecutionDataService\<close> builds a service on the local datastore only and
  returns the context's error when the context is done before the service is ready.
  The service itself is the oracle \<open>eds_Check\<close>.
\<close>

definition localExecutionDataService :: "env \<Rightarrow> state \<Rightarrow> error option" where
  "localExecutionDataService e st = ctx_Err e (gets st)"

definition checkDatastore ::
  "nat \<Rightarrow> env \<Rightarrow> ExecutionDataConfig \<Rightarrow> state \<Rightarrow> height
    \<Rightarrow> state \<times> error option result option" where
  "checkDatastore fuel e cfg st lastHeight =
     (case localExecutionDataService e st of
        Some err \<Rightarrow>
          if errors_Is err Canceled then (st, Some (Return None))
          else (st, Some (Return (Some
                  (Errorf ''failed to create local ExecutionDataService'' err))))
      | None \<Rightarrow> checkHeights fuel e cfg st (StartBlockHeight cfg) lastHeight)"

subsection \<open>The bootstrap worker\<close>

text \<open>
  Modelled from the spec: \<open>status.Load\<close> is not among the sources. It reads the
  persisted last notified height and halted flag into the status cache; when the read
  fails the status cache keeps its defaults.
\<close>

definition status_Load_state :: "env \<Rightarrow> state \<Rightarrow> state" where
  "status_Load_state e st =
     (case status_Load e of
        Inl err \<Rightarrow> st
      | Inr (n, hlt) \<Rightarrow> st\<lparr>halted := hlt, lastNotified := n\<rparr>)"

definition bootstrap ::
  "nat \<Rightarrow> env \<Rightarrow> ExecutionDataConfig \<Rightarrow> state \<Rightarrow> state \<times> unit result option" where
  "bootstrap fuel e cfg st =
     (let st1 = status_Load_state e st
      in if halted st1 then (emit LogHalting st1, Some (Return ()))
         else if CheckEnabled cfg then
           (case checkDatastore fuel e cfg st1 (lastNotified st1) of
              (st2, None) \<Rightarrow> (st2, None)
            | (st2, Some (Throw err)) \<Rightarrow> (st2, Some (Throw err))
            | (st2, Some (Return (Some err))) \<Rightarrow> (st2, Some (Throw err))
            | (st2, Some (Return None)) \<Rightarrow> (emit WorkerReady st2, Some (Return ())))
         else (emit WorkerReady st1, Some (Return ())))"

subsection \<open>Construction and the workers of the component\<close>

text \<open>\<open>New\<close> gives both job queue consumers the default index \<open>StartBlockHeight - 1\<close>.\<close>

definition rootHeight :: "ExecutionDataConfig \<Rightarrow> height" where
  "rootHeight cfg = StartBlockHeight cfg - 1"



text \<open>
  The three workers that \<open>New\<close> adds to the component manager, as actions of a
  scheduler: the bootstrap worker; the worker that calls \<open>ready\<close>, waits for the
  notification consumer and for the component to be ready, and then starts the block
  consumer; the worker that starts the notification consumer and then calls \<open>ready\<close>.
  Once a consumer is started its jobs are further actions.

  Modelled from the spec: the component manager, the job queue and the status cache
  are not among the sources. The component is ready when every worker has called
  \<open>ready\<close>; the block consumer hands out fetch jobs once it is started; the
  notification consumer hands out a job for a height only when the status cache is
  not halted and \<open>Fetched\<close> was called for that height.
\<close>

record component =
  comp_state :: state
  boot_done :: bool
  ready_boot :: bool
  ready_blocks :: bool
  ready_notif :: bool
  notif_started :: bool
  blocks_started :: bool

datatype action =
    NotifStart
  | NotifReady
  | BlocksReady
  | BlocksStart
  | Boot nat
  | FetchJob nat "error + Block"
  | NotifyJob height "error + BlockEntry"
  | Subscribe callback

definition fetched_for :: "height \<Rightarrow> event \<Rightarrow> bool" where
  "fetched_for h ev = (case ev of StatusFetched entry \<Rightarrow> Height entry = h | _ \<Rightarrow> False)"

fun step :: "env \<Rightarrow> ExecutionDataConfig \<Rightarrow> action \<Rightarrow> component \<Rightarrow> component" where
  "step e cfg NotifStart c = c\<lparr>notif_started := True\<rparr>"
| "step e cfg NotifReady c = (if notif_started c then c\<lparr>ready_notif := True\<rparr> else c)"
| "step e cfg BlocksReady c = c\<lparr>ready_blocks := True\<rparr>"
| "step e cfg BlocksStart c =
     (if ready_blocks c \<and> notif_started c \<and> ready_boot c \<and> ready_notif c
      then c\<lparr>blocks_started := True\<rparr> else c)"
| "step e cfg (Boot fuel) c =
     (if notif_started c \<and> \<not> boot_done c then
        (case bootstrap fuel e cfg (comp_state c) of
           (st', r) \<Rightarrow>
             c\<lparr>comp_state := st', boot_done := True,
               ready_boot := (r = Some (Return ()) \<and> WorkerReady \<in> set (trace st'))\<rparr>)
      else c)"
| "step e cfg (FetchJob fuel job) c =
     (if blocks_started c then
        c\<lparr>comp_state := fst (processBlockJob fuel e cfg (comp_state c) job)\<rparr>
      else c)"
| "step e cfg (NotifyJob h job) c =
     (if notif_started c \<and> \<not> halted (comp_state c)
         \<and> list_ex (fetched_for h) (trace (comp_state c))
      then c\<lparr>comp_state := fst (processNotificationJob e (comp_state c) job)\<rparr>
      else c)"
| "step e cfg (Subscribe fn) c =
     c\<lparr>comp_state := AddOnExecutionDataFetchedConsumer fn (comp_state c)\<rparr>"

fun run :: "env \<Rightarrow> ExecutionDataConfig \<Rightarrow> action list \<Rightarrow> component \<Rightarrow> component" where
  "run e cfg [] c = c"
| "run e cfg (a # as) c = run e cfg as (step e cfg a c)"

text \<open>
  A schedule that runs every worker and then tries a fetch job and a notification job
  for height 10.
\<close>

definition ex_schedule :: "action list" where
  "ex_schedule =
     [Subscribe 1, NotifStart, NotifReady, BlocksReady, Boot (Suc (Suc 0)), BlocksStart,
      FetchJob (Suc (Suc (Suc 0))) (Inr \<lparr>block_ID = 5, block_Height = 10\<rparr>),
      NotifyJob 10 (Inr \<lparr>BlockID = 5, Height = 10, ExecutionData = Some 1105\<rparr>)]"

definition new_component :: "ExecutionDataConfig \<Rightarrow> component" where
  "new_component cfg =
     \<lparr>comp_state = \<lparr>trace = [], gets = 0, halted = False, lastNotified = rootHeight cfg,
                    consumers = []\<rparr>,
      boot_done = False, ready_boot = False, ready_blocks = False, ready_notif = False,
      notif_started = False, blocks_started = False\<rparr>"







text \<open>
  The heights of the notifications in a trace, in order: \<open>processNotification\<close> records
  the notification metric of the entry's height right after the fan-out to the
  subscribers.
\<close>

fun notified :: "event list \<Rightarrow> height list" where
  "notified [] = []"
| "notified (MetricNotificationSent h # evs) = h # notified evs"
| "notified (ev # evs) = notified evs"


subsection \<open>Vocabulary of the properties and example inputs\<close>

text \<open>
  The errors the second test of \<open>processFetchRequest\<close> sends back to the retry
  wrapper: blob not found, deadline exceeded, cancelled.
\<close>

definition isRetried :: "error \<Rightarrow> bool" where
  "isRetried err =
     (isBlobNotFoundError (Some err) \<or> errors_Is err DeadlineExceeded \<or> errors_Is err Canceled)"

text \<open>
  The events of a failed and of a successful call of \<open>fetchExecutionData\<close>, the retry
  metric of the closure, the delays slept in a trace, and the request that
  \<open>processBlockJob\<close> builds from a block.
\<close>

definition failed_events :: "ExecutionDataConfig \<Rightarrow> BlockEntry \<Rightarrow> flow_id \<Rightarrow> event list" where
  "failed_events cfg req i =
     [MetricFetchStarted, EdsGet (WithTimeout (FetchTimeout cfg)) i,
      MetricFetchFinished False (Height req)]"

definition fetched_events ::
  "ExecutionDataConfig \<Rightarrow> BlockEntry \<Rightarrow> flow_id \<Rightarrow> execution_data \<Rightarrow> event list" where
  "fetched_events cfg req i d =
     [EdsGet (WithTimeout (FetchTimeout cfg)) i, EdsAdd SignalerCtx d,
      MetricFetchFinished True (Height req), StatusFetched (req\<lparr>ExecutionData := Some d\<rparr>)]"

definition retried_event :: "nat \<Rightarrow> event list" where
  "retried_event k = (if k > 0 then [MetricFetchRetried] else [])"

fun sleeps :: "event list \<Rightarrow> duration list" where
  "sleeps [] = []"
| "sleeps (Sleep d # evs) = d # sleeps evs"
| "sleeps (ev # evs) = sleeps evs"

text \<open>Whether a run of the retry wrapper ended with a throw, as a number.\<close>

definition threw :: "'a result option \<Rightarrow> nat" where
  "threw r = (case r of Some (Throw err) \<Rightarrow> 1 | _ \<Rightarrow> 0)"

definition blockEntry :: "Block \<Rightarrow> BlockEntry" where
  "blockEntry block =
     \<lparr>BlockID = block_ID block, Height = block_Height block, ExecutionData = None\<rparr>"

text \<open>
  An environment whose first two \<open>eds.Get\<close> calls miss a blob, a configuration with a
  base delay of 10 and a cap of 300, a state with two subscribers, and a request.
\<close>

definition ex_env :: env where
  "ex_env =
     \<lparr>results_ByBlockID = (\<lambda>b. Inr \<lparr>ExecutionDataID = b + 100\<rparr>),
      blocks_ByHeight = (\<lambda>h. Inr \<lparr>block_ID = unat h, block_Height = h\<rparr>),
      eds_Get = (\<lambda>k c i. if k < 2 then Inl BlobNotFoundError else Inr (i + 1000)),
      eds_Add = (\<lambda>k c d. None),
      eds_Check = (\<lambda>i. ([], True)),
      bs_DeleteBlob = (\<lambda>c. None),
      ctx_Err = (\<lambda>k. None),
      status_Load = Inr (10, False),
      rand_Int63n = (\<lambda>k. 15)\<rparr>"

definition ex_cfg :: ExecutionDataConfig where
  "ex_cfg =
     \<lparr>StartBlockHeight = 10, MaxCachedEntries = 50, MaxSearchAhead = 5000,
      FetchTimeout = 300, RetryDelay = 10, MaxRetryDelay = 300, CheckEnabled = True\<rparr>"

definition ex_st :: state where
  "ex_st = \<lparr>trace = [], gets = 0, halted = False, lastNotified = 9, consumers = [1, 2]\<rparr>"

definition ex_req :: BlockEntry where
  "ex_req = \<lparr>BlockID = 5, Height = 10, ExecutionData = None\<rparr>"

section \<open>Properties\<close>

lemma notifyLoop_eq:
  "notifyLoop fns d st = st\<lparr>trace := trace st @ map (\<lambda>fn. Callback fn d) fns\<rparr>"
  by (induction fns arbitrary: st) (simp_all add: emit_def)

lemma trace_notifyConsumers:
  "trace (notifyConsumers d st) = trace st @ map (\<lambda>fn. Callback fn d) (consumers st)"
  by (simp add: notifyConsumers_def notifyLoop_eq)

lemma count_list_Callback:
  "count_list (map (\<lambda>f. Callback f d) fns) (Callback fn d) = count_list fns fn"
  by (induction fns) simp_all

text \<open>
  C9: the subscriber fan-out calls each element of the consumers list once, in
  registration order, all with the same execution data; so a callback is called as
  many times as it occurs in the list, and registering it twice adds exactly two
  calls per fan-out.
\<close>

theorem notifyConsumers_each_once:
  "trace (notifyConsumers d st) = trace st @ map (\<lambda>fn. Callback fn d) (consumers st)
   \<and> consumers (AddOnExecutionDataFetchedConsumer fn st) = consumers st @ [fn]
   \<and> count_list (trace (notifyConsumers d
        (AddOnExecutionDataFetchedConsumer fn (AddOnExecutionDataFetchedConsumer fn st))))
        (Callback fn d)
      = count_list (trace st) (Callback fn d) + count_list (consumers st) fn + 2"
  by (simp add: trace_notifyConsumers AddOnExecutionDataFetchedConsumer_def
        count_list_Callback)

theorem notifyConsumers_each_once_witness:
  "trace (notifyConsumers 7
     \<lparr>trace = [], gets = 0, halted = False, lastNotified = 9, consumers = [1, 2, 1]\<rparr>)
     = [Callback 1 7, Callback 2 7, Callback 1 7]
   \<and> count_list (trace (notifyConsumers 7
        (AddOnExecutionDataFetchedConsumer 3 (AddOnExecutionDataFetchedConsumer 3
          \<lparr>trace = [], gets = 0, halted = False, lastNotified = 9, consumers = [1, 2, 1]\<rparr>))))
        (Callback 3 7) = 2"
  using notifyConsumers_each_once [of 7
      "\<lparr>trace = [], gets = 0, halted = False, lastNotified = 9, consumers = [1, 2, 1]\<rparr>" 3]
  by simp

subsection \<open>The notification worker\<close>

text \<open>
  C6: a notification job for an entry whose execution data was purged gets the data
  again with the execution data id of the block's execution result, by one call that
  is not retried: when the lookup or the call fails the error is thrown and neither a
  subscriber is called nor the job completed. Otherwise every subscriber is called
  with the execution data, then the notification metric is recorded, and the job is
  completed last, after the fan-out.
\<close>

theorem processNotificationJob_spec:
  "processNotificationJob e st (Inr entry) =
     (case ExecutionData entry of
        Some d \<Rightarrow>
          (st\<lparr>trace := trace st @ map (\<lambda>fn. Callback fn d) (consumers st)
                  @ [MetricNotificationSent (Height entry), JobComplete]\<rparr>, Return ())
      | None \<Rightarrow>
          (case results_ByBlockID e (BlockID entry) of
             Inl err \<Rightarrow> (st, Throw (Errorf ''failed to lookup execution result for block'' err))
           | Inr res \<Rightarrow>
               (case eds_Get e (gets st) SignalerCtx (ExecutionDataID res) of
                  Inl err \<Rightarrow>
                    (st\<lparr>trace := trace st @ [EdsGet SignalerCtx (ExecutionDataID res)],
                        gets := Suc (gets st)\<rparr>,
                     Throw (Errorf ''failed to get execution data for block'' err))
                | Inr d \<Rightarrow>
                    (st\<lparr>trace := trace st @ [EdsGet SignalerCtx (ExecutionDataID res)]
                            @ map (\<lambda>fn. Callback fn d) (consumers st)
                            @ [MetricNotificationSent (Height entry), JobComplete],
                        gets := Suc (gets st)\<rparr>,
                     Return ()))))"
  by (auto simp: processNotificationJob_def processNotification_def Let_def emit_def
        notifyConsumers_def notifyLoop_eq
        split: option.splits sum.splits)

theorem processNotificationJob_spec_witness:
  "processNotificationJob ex_env ex_st (Inr ex_req) =
     (ex_st\<lparr>trace := [EdsGet SignalerCtx 105], gets := 1\<rparr>,
      Throw (Errorf ''failed to get execution data for block'' BlobNotFoundError))
   \<and> processNotificationJob ex_env ex_st (Inr (ex_req\<lparr>ExecutionData := Some 7\<rparr>)) =
     (ex_st\<lparr>trace := [Callback 1 7, Callback 2 7, MetricNotificationSent 10, JobComplete]\<rparr>,
      Return ())"
  using processNotificationJob_spec [of ex_env ex_st ex_req]
    processNotificationJob_spec [of ex_env ex_st "ex_req\<lparr>ExecutionData := Some 7\<rparr>"]
  by (simp add: ex_env_def ex_st_def ex_req_def)

subsection \<open>Invalid data halts the requester\<close>

lemma processFetchRequest_invalid:
  assumes "results_ByBlockID e (BlockID req) = Inr res"
    "fetchExecutionData e cfg st (ExecutionDataID res) (Height req) = (st1, Inl err)"
    "isInvalidBlobError (Some err)"
  shows "processFetchRequest e cfg st req =
           (st1\<lparr>trace := trace st1 @ [StatusHalt, MetricHalted], halted := True\<rparr>,
            Throw ErrRequesterHalted)"
  using assms by (simp add: processFetchRequest_def status_Halt_def emit_def)

lemma checkCIDs_invalid:
  assumes "\<forall>(c', e') \<in> set pre. bs_DeleteBlob e c' = None"
    "\<not> errors_Is err ErrNotFound" "\<not> errors_Is err ErrHashMismatch"
    "isInvalidBlobError (Some err)"
  shows "\<exists>dels. checkCIDs e st (pre @ (c, err) # post) missing errs =
           (st\<lparr>trace := trace st @ map DeleteBlob dels\<rparr>, False, Some ErrRequesterHalted)"
  using assms(1)
proof (induction pre arbitrary: st missing errs)
  case Nil
  have "checkCIDs e st ((c, err) # post) missing errs = (st, False, Some ErrRequesterHalted)"
    using assms(2-4) by simp
  then have "checkCIDs e st ([] @ (c, err) # post) missing errs =
           (st\<lparr>trace := trace st @ map DeleteBlob []\<rparr>, False, Some ErrRequesterHalted)"
    by simp
  then show ?case by blast
next
  case (Cons a pre)
  obtain c' e' where a: "a = (c', e')" by (cases a)
  have del: "bs_DeleteBlob e c' = None" using Cons.prems a by simp
  have rest: "\<forall>(c', e') \<in> set pre. bs_DeleteBlob e c' = None" using Cons.prems by simp
  consider (nf) "errors_Is e' ErrNotFound"
    | (hm) "\<not> errors_Is e' ErrNotFound" "errors_Is e' ErrHashMismatch"
    | (inv) "\<not> errors_Is e' ErrNotFound" "\<not> errors_Is e' ErrHashMismatch"
            "isInvalidBlobError (Some e')"
    | (other) "\<not> errors_Is e' ErrNotFound" "\<not> errors_Is e' ErrHashMismatch"
            "\<not> isInvalidBlobError (Some e')"
    by blast
  then show ?case
  proof cases
    case nf
    from Cons.IH [OF rest, of st True errs] nf a show ?thesis by simp
  next
    case hm
    from Cons.IH [OF rest, of "emit (DeleteBlob c') st" True errs]
    obtain dels where
      "checkCIDs e (emit (DeleteBlob c') st) (pre @ (c, err) # post) True errs =
        ((emit (DeleteBlob c') st)\<lparr>trace := trace (emit (DeleteBlob c') st) @ map DeleteBlob dels\<rparr>,
         False, Some ErrRequesterHalted)" by blast
    then have "checkCIDs e st ((a # pre) @ (c, err) # post) missing errs =
        (st\<lparr>trace := trace st @ map DeleteBlob (c' # dels)\<rparr>, False, Some ErrRequesterHalted)"
      using hm a del by (simp add: emit_def)
    then show ?thesis by blast
  next
    case inv
    then have "checkCIDs e st ((a # pre) @ (c, err) # post) missing errs =
        (st\<lparr>trace := trace st @ map DeleteBlob []\<rparr>, False, Some ErrRequesterHalted)"
      using a by simp
    then show ?thesis by blast
  next
    case other
    from Cons.IH [OF rest, of st missing "errs @ [e']"] other a show ?thesis by simp
  qed
qed

text \<open>
  C1: when a fetch attempt of the fetch worker ends with an invalid blob error
  (malformed data, blob size limit exceeded, blob tree depth exceeded), or when the
  startup check comes to a blob with such an error, the requester calls the status
  cache's \<open>Halt\<close>, records the halted metric and throws \<open>ErrRequesterHalted\<close>; the retry
  wrapper makes no further attempt, whatever fuel is left.
\<close>

theorem invalid_data_halts:
  assumes "isInvalidBlobError (Some err)" and "ctx_Err e (gets st) = None"
  shows "(results_ByBlockID e (BlockID req) = Inr res \<and>
          fetchExecutionData e cfg st (ExecutionDataID res) (Height req) = (st1, Inl err)
          \<longrightarrow> retry_Do (Suc fuel) e cfg k st req =
                (st1\<lparr>trace := trace st1 @ [StatusHalt, MetricHalted], halted := True\<rparr>,
                 Some (Throw ErrRequesterHalted)))
       \<and> (h \<le> lastHeight \<and> blocks_ByHeight e h = Inr block \<and>
          results_ByBlockID e (block_ID block) = Inr res' \<and>
          eds_Check e (ExecutionDataID res') = (pre @ (c, err) # post, False) \<and>
          \<not> errors_Is err ErrNotFound \<and> \<not> errors_Is err ErrHashMismatch \<and>
          (\<forall>(c', e') \<in> set pre. bs_DeleteBlob e c' = None)
          \<longrightarrow> (\<exists>dels. checkHeights (Suc fuel) e cfg st h lastHeight =
                (st\<lparr>trace := trace st @ map DeleteBlob dels @ [StatusHalt, MetricHalted],
                    halted := True\<rparr>,
                 Some (Throw ErrRequesterHalted))))"
proof (intro conjI impI)
  assume a: "results_ByBlockID e (BlockID req) = Inr res \<and>
          fetchExecutionData e cfg st (ExecutionDataID res) (Height req) = (st1, Inl err)"
  from processFetchRequest_invalid [OF conjunct1 [OF a] conjunct2 [OF a] assms(1)]
  show "retry_Do (Suc fuel) e cfg k st req =
                (st1\<lparr>trace := trace st1 @ [StatusHalt, MetricHalted], halted := True\<rparr>,
                 Some (Throw ErrRequesterHalted))"
    using assms(2) by simp
next
  assume b: "h \<le> lastHeight \<and> blocks_ByHeight e h = Inr block \<and>
          results_ByBlockID e (block_ID block) = Inr res' \<and>
          eds_Check e (ExecutionDataID res') = (pre @ (c, err) # post, False) \<and>
          \<not> errors_Is err ErrNotFound \<and> \<not> errors_Is err ErrHashMismatch \<and>
          (\<forall>(c', e') \<in> set pre. bs_DeleteBlob e c' = None)"
  then obtain dels where
    "checkCIDs e st (pre @ (c, err) # post) False [] =
       (st\<lparr>trace := trace st @ map DeleteBlob dels\<rparr>, False, Some ErrRequesterHalted)"
    using checkCIDs_invalid [of pre e err st c post False "[]"] assms(1) by blast
  then have "checkHeights (Suc fuel) e cfg st h lastHeight =
                (st\<lparr>trace := trace st @ map DeleteBlob dels @ [StatusHalt, MetricHalted],
                    halted := True\<rparr>,
                 Some (Throw ErrRequesterHalted))"
    using b assms(2)
    by (simp add: checkExecutionData_def errors_Is_opt_def status_Halt_def emit_def)
  then show "\<exists>dels. checkHeights (Suc fuel) e cfg st h lastHeight =
                (st\<lparr>trace := trace st @ map DeleteBlob dels @ [StatusHalt, MetricHalted],
                    halted := True\<rparr>,
                 Some (Throw ErrRequesterHalted))" by blast
qed

theorem invalid_data_halts_witness:
  "retry_Do (Suc 4) (ex_env\<lparr>eds_Get := \<lambda>k c i. Inl (Errorf ''blob'' MalformedDataError)\<rparr>)
      ex_cfg 0 ex_st ex_req =
     (ex_st\<lparr>trace := [MetricFetchStarted, EdsGet (WithTimeout 300) 105,
                       MetricFetchFinished False 10, StatusHalt, MetricHalted],
            gets := 1, halted := True\<rparr>,
      Some (Throw ErrRequesterHalted))
   \<and> (\<exists>dels. checkHeights (Suc 4)
        (ex_env\<lparr>eds_Check := \<lambda>i. ([(3, ErrHashMismatch), (4, BlobSizeLimitExceededError)], False)\<rparr>)
        ex_cfg ex_st 10 10 =
     (ex_st\<lparr>trace := map DeleteBlob dels @ [StatusHalt, MetricHalted], halted := True\<rparr>,
      Some (Throw ErrRequesterHalted)))"
proof -
  let ?e1 = "ex_env\<lparr>eds_Get := \<lambda>k c i. Inl (Errorf ''blob'' MalformedDataError)\<rparr>"
  let ?e2 = "ex_env\<lparr>eds_Check :=
               \<lambda>i. ([(3, ErrHashMismatch), (4, BlobSizeLimitExceededError)], False)\<rparr>"
  let ?st1 = "ex_st\<lparr>trace := [MetricFetchStarted, EdsGet (WithTimeout 300) 105,
                             MetricFetchFinished False 10], gets := 1\<rparr>"
  have inv1: "isInvalidBlobError (Some (Errorf ''blob'' MalformedDataError))"
    by (simp add: isInvalidBlobError_def errors_Is_opt_def)
  have inv2: "isInvalidBlobError (Some BlobSizeLimitExceededError)"
    by (simp add: isInvalidBlobError_def errors_Is_opt_def)
  have c1: "ctx_Err ?e1 (gets ex_st) = None" and c2: "ctx_Err ?e2 (gets ex_st) = None"
    by (simp_all add: ex_env_def)
  have f: "fetchExecutionData ?e1 ex_cfg ex_st (ExecutionDataID \<lparr>ExecutionDataID = 105\<rparr>)
             (Height ex_req) = (?st1, Inl (Errorf ''blob'' MalformedDataError))"
    by (simp add: fetchExecutionData_def ex_env_def ex_cfg_def ex_st_def ex_req_def emit_def)
  have r: "results_ByBlockID ?e1 (BlockID ex_req) = Inr \<lparr>ExecutionDataID = 105\<rparr>"
    by (simp add: ex_env_def ex_req_def)
  have a: "retry_Do (Suc 4) ?e1 ex_cfg 0 ex_st ex_req =
     (?st1\<lparr>trace := trace ?st1 @ [StatusHalt, MetricHalted], halted := True\<rparr>,
      Some (Throw ErrRequesterHalted))"
    using invalid_data_halts [where fuel = 4 and k = 0 and req = ex_req and cfg = ex_cfg
        and res = "\<lparr>ExecutionDataID = 105\<rparr>" and ?st1.0 = ?st1, OF inv1 c1] r f
    by blast
  have h2: "(10 :: height) \<le> 10 \<and>
      blocks_ByHeight ?e2 10 = Inr \<lparr>block_ID = 10, block_Height = 10\<rparr> \<and>
      results_ByBlockID ?e2 (block_ID \<lparr>block_ID = 10, block_Height = 10\<rparr>)
        = Inr \<lparr>ExecutionDataID = 110\<rparr> \<and>
      eds_Check ?e2 (ExecutionDataID \<lparr>ExecutionDataID = 110\<rparr>)
        = ([(3, ErrHashMismatch)] @ (4, BlobSizeLimitExceededError) # [], False) \<and>
      \<not> errors_Is BlobSizeLimitExceededError ErrNotFound \<and>
      \<not> errors_Is BlobSizeLimitExceededError ErrHashMismatch \<and>
      (\<forall>(c', e') \<in> set [(3 :: cid, ErrHashMismatch)]. bs_DeleteBlob ?e2 c' = None)"
    by (simp add: ex_env_def)
  have b: "\<exists>dels. checkHeights (Suc 4) ?e2 ex_cfg ex_st 10 10 =
     (ex_st\<lparr>trace := trace ex_st @ map DeleteBlob dels @ [StatusHalt, MetricHalted],
            halted := True\<rparr>,
      Some (Throw ErrRequesterHalted))"
    using invalid_data_halts [where fuel = 4 and cfg = ex_cfg and h = 10 and lastHeight = 10
        and block = "\<lparr>block_ID = 10, block_Height = 10\<rparr>"
        and res' = "\<lparr>ExecutionDataID = 110\<rparr>" and pre = "[(3, ErrHashMismatch)]"
        and c = 4 and post = "[]", OF inv2 c2] h2
    by blast
  from a b show ?thesis by (simp add: ex_st_def del: retry_Do.simps checkHeights.simps)
qed

subsection \<open>The retry wrapper, step by step\<close>

lemma sleeps_append: "sleeps (xs @ ys) = sleeps xs @ sleeps ys"
  by (induction xs rule: sleeps.induct) simp_all

lemma isRetried_Errorf: "isRetried (Errorf m err) = isRetried err"
  by (simp add: isRetried_def isBlobNotFoundError_def errors_Is_opt_def)

lemma isInvalid_Errorf: "isInvalidBlobError (Some (Errorf m err)) = isInvalidBlobError (Some err)"
  by (simp add: isInvalidBlobError_def errors_Is_opt_def)

lemma processFetchRequest_get_failed:
  assumes "results_ByBlockID e (BlockID req) = Inr res"
    "eds_Get e (gets st) (WithTimeout (FetchTimeout cfg)) (ExecutionDataID res) = Inl err"
    "isRetried err" "\<not> isInvalidBlobError (Some err)"
  shows "processFetchRequest e cfg st req =
           (st\<lparr>gets := Suc (gets st),
               trace := trace st @ failed_events cfg req (ExecutionDataID res)\<rparr>,
            Return (Some err))"
  using assms
  by (simp add: processFetchRequest_def fetchExecutionData_def emit_def isRetried_def
        failed_events_def)

lemma retry_Do_failed_step:
  assumes "ctx_Err e (gets st) = None" "ctx_Err e (Suc (gets st)) = None"
    "results_ByBlockID e (BlockID req) = Inr res"
    "eds_Get e (gets st) (WithTimeout (FetchTimeout cfg)) (ExecutionDataID res) = Inl err"
    "isRetried err" "\<not> isInvalidBlobError (Some err)"
  shows "retry_Do (Suc fuel) e cfg k st req =
           retry_Do fuel e cfg (Suc k)
             (st\<lparr>gets := Suc (gets st),
                 trace := trace st @ failed_events cfg req (ExecutionDataID res)
                      @ retried_event k @ [Sleep (backoff_Next e cfg k (Suc (gets st)))]\<rparr>)
             req"
  using assms(1,2) processFetchRequest_get_failed [OF assms(3-6)]
  by (simp add: emit_def retried_event_def)

lemma retry_Do_forever:
  assumes "\<forall>n. ctx_Err e n = None" "results_ByBlockID e (BlockID req) = Inr res"
    "\<forall>n. \<exists>err. eds_Get e n (WithTimeout (FetchTimeout cfg)) (ExecutionDataID res) = Inl err
            \<and> isRetried err \<and> \<not> isInvalidBlobError (Some err)"
  shows "\<exists>evs. retry_Do fuel e cfg k st req =
            (st\<lparr>gets := gets st + fuel, trace := trace st @ evs\<rparr>, None)
          \<and> length (sleeps evs) = fuel"
proof (induction fuel arbitrary: k st)
  case 0
  have "retry_Do 0 e cfg k st req = (st\<lparr>gets := gets st + 0, trace := trace st @ []\<rparr>, None)
        \<and> length (sleeps []) = 0" by simp
  then show ?case by blast
next
  case (Suc fuel)
  obtain err where err:
    "eds_Get e (gets st) (WithTimeout (FetchTimeout cfg)) (ExecutionDataID res) = Inl err"
    "isRetried err" "\<not> isInvalidBlobError (Some err)" using assms(3) by blast
  let ?evs1 = "failed_events cfg req (ExecutionDataID res)
                 @ retried_event k @ [Sleep (backoff_Next e cfg k (Suc (gets st)))]"
  let ?st1 = "st\<lparr>gets := Suc (gets st), trace := trace st @ ?evs1\<rparr>"
  have step: "retry_Do (Suc fuel) e cfg k st req = retry_Do fuel e cfg (Suc k) ?st1 req"
    using retry_Do_failed_step [OF _ _ assms(2) err] assms(1) by simp
  from Suc.IH [of "Suc k" ?st1] obtain evs where ih:
    "retry_Do fuel e cfg (Suc k) ?st1 req =
       (?st1\<lparr>gets := gets ?st1 + fuel, trace := trace ?st1 @ evs\<rparr>, None)"
    "length (sleeps evs) = fuel" by blast
  have "retry_Do (Suc fuel) e cfg k st req =
          (st\<lparr>gets := gets st + Suc fuel, trace := trace st @ (?evs1 @ evs)\<rparr>, None)"
    using step ih(1) by simp
  moreover have "length (sleeps (?evs1 @ evs)) = Suc fuel"
    using ih(2) by (simp add: sleeps_append failed_events_def retried_event_def)
  ultimately show ?case by blast
qed

lemma retry_Do_fetched_step:
  assumes "ctx_Err e (gets st) = None"
    "results_ByBlockID e (BlockID req) = Inr res"
    "eds_Get e (gets st) (WithTimeout (FetchTimeout cfg)) (ExecutionDataID res) = Inr d"
    "eds_Add e (gets st) SignalerCtx d = None"
  shows "retry_Do (Suc fuel) e cfg k st req =
           (st\<lparr>gets := Suc (gets st),
               trace := trace st @ MetricFetchStarted
                  # fetched_events cfg req (ExecutionDataID res) d @ retried_event k\<rparr>,
            Some (Return None))"
  using assms
  by (simp add: processFetchRequest_def fetchExecutionData_def emit_def retried_event_def
        fetched_events_def)

lemma retry_Do_script:
  assumes "\<forall>n. ctx_Err e n = None" "results_ByBlockID e (BlockID req) = Inr res"
  shows "(\<forall>j<n. \<exists>err. eds_Get e (gets st + j) (WithTimeout (FetchTimeout cfg))
                          (ExecutionDataID res) = Inl err
                   \<and> isRetried err \<and> \<not> isInvalidBlobError (Some err)) \<Longrightarrow>
         eds_Get e (gets st + n) (WithTimeout (FetchTimeout cfg)) (ExecutionDataID res) = Inr d \<Longrightarrow>
         eds_Add e (gets st + n) SignalerCtx d = None \<Longrightarrow>
         \<exists>evs. retry_Do (Suc n + extra) e cfg k st req =
                  (st\<lparr>gets := gets st + Suc n, trace := trace st @ evs\<rparr>, Some (Return None))
              \<and> count_list evs MetricFetchRetried = n + (if k > 0 then 1 else 0)
              \<and> sleeps evs = map (\<lambda>j. backoff_Next e cfg (k + j) (gets st + Suc j)) [0..<n]"
proof (induction n arbitrary: k st)
  case 0
  let ?evs = "MetricFetchStarted # fetched_events cfg req (ExecutionDataID res) d @ retried_event k"
  have "retry_Do (Suc 0 + extra) e cfg k st req =
          (st\<lparr>gets := gets st + Suc 0, trace := trace st @ ?evs\<rparr>, Some (Return None))"
    using retry_Do_fetched_step [of e st req res cfg d extra k] 0 assms by simp
  moreover have "count_list ?evs MetricFetchRetried = 0 + (if k > 0 then 1 else 0)"
    by (simp add: fetched_events_def retried_event_def)
  moreover have "sleeps ?evs = map (\<lambda>j. backoff_Next e cfg (k + j) (gets st + Suc j)) [0..<0]"
    by (simp add: fetched_events_def retried_event_def sleeps_append)
  ultimately show ?case by blast
next
  case (Suc n)
  from Suc.prems(1) obtain err where err:
    "eds_Get e (gets st) (WithTimeout (FetchTimeout cfg)) (ExecutionDataID res) = Inl err"
    "isRetried err" "\<not> isInvalidBlobError (Some err)" by force
  let ?evs1 = "failed_events cfg req (ExecutionDataID res)
                 @ retried_event k @ [Sleep (backoff_Next e cfg k (Suc (gets st)))]"
  let ?st1 = "st\<lparr>gets := Suc (gets st), trace := trace st @ ?evs1\<rparr>"
  have step: "retry_Do (Suc (Suc n) + extra) e cfg k st req
                = retry_Do (Suc n + extra) e cfg (Suc k) ?st1 req"
    using retry_Do_failed_step [OF _ _ assms(2) err, of "Suc n + extra" k] assms(1) by simp
  have p1: "\<forall>j<n. \<exists>err. eds_Get e (gets ?st1 + j) (WithTimeout (FetchTimeout cfg))
                          (ExecutionDataID res) = Inl err
                   \<and> isRetried err \<and> \<not> isInvalidBlobError (Some err)"
    using Suc.prems(1) by auto
  have p2: "eds_Get e (gets ?st1 + n) (WithTimeout (FetchTimeout cfg)) (ExecutionDataID res) = Inr d"
    using Suc.prems(2) by simp
  have p3: "eds_Add e (gets ?st1 + n) SignalerCtx d = None"
    using Suc.prems(3) by simp
  from Suc.IH [OF p1 p2 p3, of "Suc k"] obtain evs where ih:
    "retry_Do (Suc n + extra) e cfg (Suc k) ?st1 req =
       (?st1\<lparr>gets := gets ?st1 + Suc n, trace := trace ?st1 @ evs\<rparr>, Some (Return None))"
    "count_list evs MetricFetchRetried = n + 1"
    "sleeps evs = map (\<lambda>j. backoff_Next e cfg (Suc k + j) (gets ?st1 + Suc j)) [0..<n]"
    by auto
  have a: "retry_Do (Suc (Suc n) + extra) e cfg k st req =
       (st\<lparr>gets := gets st + Suc (Suc n), trace := trace st @ (?evs1 @ evs)\<rparr>,
        Some (Return None))"
    using step ih(1) by simp
  have b: "count_list (?evs1 @ evs) MetricFetchRetried = Suc n + (if k > 0 then 1 else 0)"
    using ih(2) by (simp add: failed_events_def retried_event_def)
  have "map (\<lambda>j. backoff_Next e cfg (k + j) (gets st + Suc j)) [0..<Suc n]
          = backoff_Next e cfg k (Suc (gets st))
            # map (\<lambda>j. backoff_Next e cfg (Suc k + j) (gets ?st1 + Suc j)) [0..<n]"
    by (simp add: upt_conv_Cons map_Suc_upt [symmetric] del: upt_Suc)
  then have c: "sleeps (?evs1 @ evs)
          = map (\<lambda>j. backoff_Next e cfg (k + j) (gets st + Suc j)) [0..<Suc n]"
    using ih(3) by (simp add: sleeps_append failed_events_def retried_event_def)
  from a b c show ?case by blast
qed

lemma WithJitterPercent_bounds:
  assumes "0 \<le> val"
  shows "val * 85 div 100 \<le> WithJitterPercent 15 r val"
    and "WithJitterPercent 15 r val \<le> val * 115 div 100"
proof -
  define top where "top = int (r mod 30) - 15"
  have t: "-15 \<le> top" "top \<le> 14"
    by (simp_all add: top_def)
  have m1: "val * 85 \<le> val * (100 - top)" using t assms by (intro mult_left_mono) auto
  have m2: "val * (100 - top) \<le> val * 115" using t assms by (intro mult_left_mono) auto
  have nn: "0 \<le> val * (100 - top) div 100"
    using assms t by (simp add: pos_imp_zdiv_nonneg_iff)
  have w: "WithJitterPercent 15 r val = val * (100 - top) div 100"
    using nn by (simp add: WithJitterPercent_def top_def Let_def)
  show "val * 85 div 100 \<le> WithJitterPercent 15 r val"
    unfolding w using m1 by (rule zdiv_mono1) simp
  show "WithJitterPercent 15 r val \<le> val * 115 div 100"
    unfolding w using m2 by (rule zdiv_mono1) simp
qed

subsection \<open>Completion of a fetch job\<close>

lemma processFetchRequest_trace:
  assumes "processFetchRequest e cfg st req = (st', r)"
  shows "\<exists>evs. trace st' = trace st @ evs \<and> JobComplete \<notin> set evs \<and>
           (r = Return None \<longrightarrow>
              (\<exists>i d. evs = MetricFetchStarted # fetched_events cfg req i d))"
  using assms
  by (auto simp: processFetchRequest_def fetchExecutionData_def emit_def Let_def status_Halt_def
        fetched_events_def
      split: sum.splits option.splits if_splits)

lemma retry_Do_trace:
  "retry_Do fuel e cfg k st req = (st', r) \<Longrightarrow>
     \<exists>evs. trace st' = trace st @ evs \<and> JobComplete \<notin> set evs \<and>
       (r = Some (Return None) \<longrightarrow>
          (\<exists>pre i d suf. evs = pre @ fetched_events cfg req i d @ suf \<and>
             set suf \<subseteq> {MetricFetchRetried}))"
proof (induction fuel arbitrary: k st)
  case 0
  then show ?case by auto
next
  case (Suc fuel)
  show ?case
  proof (cases "ctx_Err e (gets st)")
    case (Some a)
    with Suc.prems show ?thesis by auto
  next
    case None
    obtain st1 r1 where pf: "processFetchRequest e cfg st req = (st1, r1)"
      by (cases "processFetchRequest e cfg st req")
    from processFetchRequest_trace [OF pf]
    obtain evs1 where e1: "trace st1 = trace st @ evs1" "JobComplete \<notin> set evs1"
      "r1 = Return None \<longrightarrow> (\<exists>i d. evs1 = MetricFetchStarted # fetched_events cfg req i d)"
      by blast
    show ?thesis
    proof (cases r1)
      case (Throw x)
      with Suc.prems None pf e1 show ?thesis by auto
    next
      case (Return err)
      define rt where "rt = (if k > 0 then [MetricFetchRetried] else [])"
      define st2 where "st2 = (if k > 0 then emit MetricFetchRetried st1 else st1)"
      have t2: "trace st2 = trace st @ evs1 @ rt"
        using e1 by (auto simp: st2_def rt_def emit_def)
      have rt: "set rt \<subseteq> {MetricFetchRetried}" by (auto simp: rt_def)
      show ?thesis
      proof (cases err)
        case None': None
        then obtain i d where ev: "evs1 = [MetricFetchStarted] @ fetched_events cfg req i d"
          using e1(3) Return by auto
        have res: "st' = st2" "r = Some (Return None)"
          using Suc.prems None pf Return None' by (auto simp: st2_def)
        have "trace st' = trace st @ (evs1 @ rt)" using res t2 by simp
        moreover have "JobComplete \<notin> set (evs1 @ rt)" using e1(2) rt by auto
        moreover have "evs1 @ rt = [MetricFetchStarted] @ fetched_events cfg req i d @ rt"
          using ev by simp
        ultimately show ?thesis using rt by blast
      next
        case (Some err')
        show ?thesis
        proof (cases "ctx_Err e (gets st2)")
          case (Some c)
          with Suc.prems None pf Return \<open>err = Some err'\<close> t2 e1(2) rt show ?thesis
            by (auto simp: st2_def)
        next
          case None2: None
          let ?st3 = "emit (Sleep (backoff_Next e cfg k (gets st2))) st2"
          have "retry_Do fuel e cfg (Suc k) ?st3 req = (st', r)"
            using Suc.prems None pf Return \<open>err = Some err'\<close> None2
            by (simp add: st2_def Let_def)
          from Suc.IH [OF this] obtain evs where ih:
            "trace st' = trace ?st3 @ evs" "JobComplete \<notin> set evs"
            "r = Some (Return None) \<longrightarrow>
              (\<exists>pre i d suf. evs = pre @ fetched_events cfg req i d @ suf \<and>
                 set suf \<subseteq> {MetricFetchRetried})" by blast
          let ?p = "evs1 @ rt @ [Sleep (backoff_Next e cfg k (gets st2))]"
          have a: "trace st' = trace st @ (?p @ evs)"
            using ih(1) t2 by (simp add: emit_def)
          have b: "JobComplete \<notin> set (?p @ evs)" using ih(2) e1(2) rt by auto
          have c: "r = Some (Return None) \<longrightarrow>
              (\<exists>pre i d suf. ?p @ evs = pre @ fetched_events cfg req i d @ suf \<and>
                 set suf \<subseteq> {MetricFetchRetried})"
          proof
            assume "r = Some (Return None)"
            with ih(3) obtain pre i d suf where
              "evs = pre @ fetched_events cfg req i d @ suf" "set suf \<subseteq> {MetricFetchRetried}"
              by blast
            then have "?p @ evs = (?p @ pre) @ fetched_events cfg req i d @ suf" by simp
            with \<open>set suf \<subseteq> {MetricFetchRetried}\<close> show
              "\<exists>pre i d suf. ?p @ evs = pre @ fetched_events cfg req i d @ suf \<and>
                 set suf \<subseteq> {MetricFetchRetried}" by blast
          qed
          from a b c show ?thesis by blast
        qed
      qed
    qed
  qed
qed

text \<open>
  C10: \<open>processBlockJob\<close> calls \<open>complete\<close> exactly when \<open>processSealedHeight\<close> returned
  nil; then the events before the completion contain, in this order, the successful
  \<open>eds.Get\<close>, the \<open>eds.Add\<close> to the local blob store, the fetch-finished metric with
  success, and \<open>status.Fetched\<close> for the entry with its execution data. When
  \<open>processSealedHeight\<close> returns an error, throws, or is still retrying, the job is not
  completed.
\<close>

theorem processBlockJob_complete_iff:
  assumes "processBlockJob fuel e cfg st (Inr block) = (st', r)"
  shows "\<exists>evs. trace st' = trace st @ evs \<and>
     ((JobComplete \<in> set evs) =
        (snd (processSealedHeight fuel e cfg st (blockEntry block)) = Some (Return None))) \<and>
     (JobComplete \<in> set evs \<longrightarrow>
        (\<exists>pre i d suf. evs = pre @ fetched_events cfg (blockEntry block) i d @ suf @ [JobComplete]
           \<and> JobComplete \<notin> set pre \<and> set suf \<subseteq> {MetricFetchRetried}))"
proof -
  obtain st1 r1 where ps: "processSealedHeight fuel e cfg st (blockEntry block) = (st1, r1)"
    by (cases "processSealedHeight fuel e cfg st (blockEntry block)")
  have tr: "\<exists>evs. trace st1 = trace st @ evs \<and> JobComplete \<notin> set evs \<and>
       (r1 = Some (Return None) \<longrightarrow>
          (\<exists>pre i d suf. evs = pre @ fetched_events cfg (blockEntry block) i d @ suf \<and>
             set suf \<subseteq> {MetricFetchRetried}))"
  proof (cases "RetryDelay cfg \<le> 0")
    case True
    with ps show ?thesis by (auto simp: processSealedHeight_def)
  next
    case False
    with ps have "retry_Do fuel e cfg 0 st (blockEntry block) = (st1, r1)"
      by (simp add: processSealedHeight_def)
    from retry_Do_trace [OF this] show ?thesis .
  qed
  then obtain evs where evs: "trace st1 = trace st @ evs" "JobComplete \<notin> set evs"
    "r1 = Some (Return None) \<longrightarrow>
          (\<exists>pre i d suf. evs = pre @ fetched_events cfg (blockEntry block) i d @ suf \<and>
             set suf \<subseteq> {MetricFetchRetried})" by blast
  show ?thesis
  proof (cases "r1 = Some (Return None)")
    case True
    then obtain pre i d suf where sh:
      "evs = pre @ fetched_events cfg (blockEntry block) i d @ suf" "set suf \<subseteq> {MetricFetchRetried}"
      using evs(3) by blast
    have "st' = emit JobComplete st1" using assms ps True
      by (simp add: processBlockJob_def blockEntry_def)
    then have "trace st' = trace st @ (evs @ [JobComplete])" using evs(1) by (simp add: emit_def)
    moreover have "JobComplete \<notin> set pre" using evs(2) sh(1) by simp
    ultimately show ?thesis using ps True sh by auto
  next
    case False
    then have "st' = st1" using assms ps
      by (auto simp: processBlockJob_def blockEntry_def split: option.splits result.splits)
    then show ?thesis using evs ps False by auto
  qed
qed

theorem processBlockJob_complete_iff_witness:
  "processBlockJob (Suc (Suc (Suc 0))) ex_env ex_cfg ex_st (Inr \<lparr>block_ID = 5, block_Height = 10\<rparr>)
     = (\<lparr>trace =
          [MetricFetchStarted, EdsGet (WithTimeout 300) 105, MetricFetchFinished False 10,
           Sleep 10,
           MetricFetchStarted, EdsGet (WithTimeout 300) 105, MetricFetchFinished False 10,
           MetricFetchRetried, Sleep 20,
           MetricFetchStarted, EdsGet (WithTimeout 300) 105, EdsAdd SignalerCtx 1105,
           MetricFetchFinished True 10,
           StatusFetched \<lparr>BlockID = 5, Height = 10, ExecutionData = Some 1105\<rparr>,
           MetricFetchRetried, JobComplete],
         gets = 3, halted = False, lastNotified = 9, consumers = [1, 2]\<rparr>,
        Some (Return ()))
   \<and> snd (processSealedHeight (Suc (Suc (Suc 0))) ex_env ex_cfg ex_st
            (blockEntry \<lparr>block_ID = 5, block_Height = 10\<rparr>)) = Some (Return None)"
proof -
  let ?b = "\<lparr>block_ID = 5, block_Height = 10\<rparr>"
  let ?tr = "[MetricFetchStarted, EdsGet (WithTimeout 300) 105, MetricFetchFinished False 10,
           Sleep 10,
           MetricFetchStarted, EdsGet (WithTimeout 300) 105, MetricFetchFinished False 10,
           MetricFetchRetried, Sleep 20,
           MetricFetchStarted, EdsGet (WithTimeout 300) 105, EdsAdd SignalerCtx 1105,
           MetricFetchFinished True 10,
           StatusFetched \<lparr>BlockID = 5, Height = 10, ExecutionData = Some 1105\<rparr>,
           MetricFetchRetried, JobComplete]"
  let ?st' = "\<lparr>trace = ?tr, gets = 3, halted = False, lastNotified = 9, consumers = [1, 2]\<rparr>"
  have run: "processBlockJob (Suc (Suc (Suc 0))) ex_env ex_cfg ex_st (Inr ?b)
               = (?st', Some (Return ()))"
    by (simp add: processBlockJob_def processSealedHeight_def processFetchRequest_def
          fetchExecutionData_def ex_env_def ex_cfg_def ex_st_def emit_def
          isInvalidBlobError_def isBlobNotFoundError_def errors_Is_opt_def
          backoff_Next_def WithJitterPercent_def WithCappedDuration_def exponential_def)
  from processBlockJob_complete_iff [OF run] obtain evs where
    "trace ?st' = trace ex_st @ evs"
    "(JobComplete \<in> set evs) =
       (snd (processSealedHeight (Suc (Suc (Suc 0))) ex_env ex_cfg ex_st (blockEntry ?b))
          = Some (Return None))"
    by blast
  then have "snd (processSealedHeight (Suc (Suc (Suc 0))) ex_env ex_cfg ex_st (blockEntry ?b))
          = Some (Return None)"
    by (auto simp: ex_st_def)
  with run show ?thesis by simp
qed

subsection \<open>Backoff and the retry metric\<close>

lemma processFetchRequest_attempt:
  assumes "results_ByBlockID e (BlockID req) = Inr res"
    and "processFetchRequest e cfg st req = (st1, r1)"
  shows "\<exists>evs. trace st1 = trace st @ evs \<and> count_list evs MetricFetchStarted = 1
           \<and> count_list evs MetricFetchRetried = 0 \<and> sleeps evs = []
           \<and> gets st1 = Suc (gets st)"
  using assms
  by (auto simp: processFetchRequest_def fetchExecutionData_def emit_def Let_def status_Halt_def
        split: sum.splits option.splits if_splits)

lemma retry_Do_metric:
  assumes "results_ByBlockID e (BlockID req) = Inr res"
  shows "retry_Do fuel e cfg k st req = (st', r) \<Longrightarrow>
     \<exists>evs. trace st' = trace st @ evs
       \<and> threw r \<le> count_list evs MetricFetchStarted
       \<and> count_list evs MetricFetchRetried =
           count_list evs MetricFetchStarted - threw r - (if k = 0 then 1 else 0)
       \<and> sleeps evs = map (\<lambda>j. backoff_Next e cfg (k + j) (gets st + Suc j))
                         [0..<length (sleeps evs)]"
proof (induction fuel arbitrary: k st)
  case 0
  then have "trace st' = trace st @ []" "r = None" by auto
  then show ?case by (auto simp: threw_def)
next
  case (Suc fuel)
  show ?case
  proof (cases "ctx_Err e (gets st)")
    case (Some cerr)
    with Suc.prems have "trace st' = trace st @ []" "r = Some (Return (Some cerr))" by auto
    then show ?thesis by (auto simp: threw_def)
  next
    case None
    obtain st1 r1 where pf: "processFetchRequest e cfg st req = (st1, r1)"
      by (cases "processFetchRequest e cfg st req")
    from processFetchRequest_attempt [OF assms pf] obtain evs1 where e1:
      "trace st1 = trace st @ evs1" "count_list evs1 MetricFetchStarted = 1"
      "count_list evs1 MetricFetchRetried = 0" "sleeps evs1 = []" "gets st1 = Suc (gets st)"
      by blast
    show ?thesis
    proof (cases r1)
      case (Throw x)
      with Suc.prems None pf have "st' = st1" "r = Some (Throw x)" by auto
      with e1 show ?thesis by (auto simp: threw_def)
    next
      case (Return err)
      define st2 where "st2 = (if k > 0 then emit MetricFetchRetried st1 else st1)"
      have t2: "trace st2 = trace st @ evs1 @ retried_event k" "gets st2 = Suc (gets st)"
        using e1 by (auto simp: st2_def retried_event_def emit_def)
      have c2: "count_list (evs1 @ retried_event k) MetricFetchStarted = 1"
        "count_list (evs1 @ retried_event k) MetricFetchRetried = (if k = 0 then 0 else 1)"
        "sleeps (evs1 @ retried_event k) = []"
        using e1 by (auto simp: retried_event_def sleeps_append)
      show ?thesis
      proof (cases "err = None \<or> ctx_Err e (gets st2) \<noteq> None")
        case True
        then have "st' = st2" "threw r = 0"
          using Suc.prems None pf Return
          by (auto simp: st2_def threw_def Let_def split: option.splits)
        with t2 c2 show ?thesis by auto
      next
        case False
        let ?d = "backoff_Next e cfg k (gets st2)"
        let ?st3 = "emit (Sleep ?d) st2"
        have "retry_Do fuel e cfg (Suc k) ?st3 req = (st', r)"
          using Suc.prems None pf Return False by (auto simp: st2_def Let_def)
        from Suc.IH [OF this] obtain evs where ih:
          "trace st' = trace ?st3 @ evs"
          "threw r \<le> count_list evs MetricFetchStarted"
          "count_list evs MetricFetchRetried = count_list evs MetricFetchStarted - threw r"
          "sleeps evs = map (\<lambda>j. backoff_Next e cfg (Suc k + j) (gets ?st3 + Suc j))
                          [0..<length (sleeps evs)]"
          by auto
        let ?all = "(evs1 @ retried_event k) @ [Sleep ?d] @ evs"
        have a: "trace st' = trace st @ ?all" using ih(1) t2 by (simp add: emit_def)
        have b: "threw r \<le> count_list ?all MetricFetchStarted" using ih(2) c2 by simp
        have c: "count_list ?all MetricFetchRetried =
                   count_list ?all MetricFetchStarted - threw r - (if k = 0 then 1 else 0)"
          using ih(2,3) c2 by auto
        have g3: "gets ?st3 = Suc (gets st)" using t2 by (simp add: emit_def)
        have s: "sleeps ?all = ?d # sleeps evs" using c2(3) by (simp add: sleeps_append)
        have "map (\<lambda>j. backoff_Next e cfg (k + j) (gets st + Suc j)) [0..<Suc (length (sleeps evs))]
                = backoff_Next e cfg k (Suc (gets st))
                  # map (\<lambda>j. backoff_Next e cfg (Suc k + j) (Suc (gets st) + Suc j))
                      [0..<length (sleeps evs)]"
          by (simp add: upt_conv_Cons map_Suc_upt [symmetric] del: upt_Suc)
        then have d: "sleeps ?all = map (\<lambda>j. backoff_Next e cfg (k + j) (gets st + Suc j))
                         [0..<length (sleeps ?all)]"
          using s ih(4) g3 t2(2) by simp
        from a b c d show ?thesis by blast
      qed
    qed
  qed
qed

lemma retry_Do_no_result:
  assumes "results_ByBlockID e (BlockID req) = Inl lerr"
  shows "trace (fst (retry_Do fuel e cfg k st req)) = trace st
         \<and> snd (retry_Do fuel e cfg k st req) \<noteq> Some (Return None)"
  using assms
  by (cases fuel) (auto simp: processFetchRequest_def split: option.splits)

text \<open>
  The original reading of C8 fails: the closure records the fetch-retried metric only
  after \<open>processFetchRequest\<close> has returned. When the first attempt misses a blob and
  the second finds malformed data, the second attempt throws and the run has two
  attempts and no fetch-retried metric.
\<close>

theorem thrown_attempt_records_no_retry_counterexample:
  "processSealedHeight (Suc (Suc 0))
      (ex_env\<lparr>eds_Get := \<lambda>k c i. if k = 0 then Inl BlobNotFoundError
                                    else Inl MalformedDataError\<rparr>)
      ex_cfg ex_st ex_req =
     (ex_st\<lparr>gets := 2, halted := True,
            trace := failed_events ex_cfg ex_req 105 @ [Sleep 10]
                     @ failed_events ex_cfg ex_req 105 @ [StatusHalt, MetricHalted]\<rparr>,
      Some (Throw ErrRequesterHalted))
   \<and> count_list (failed_events ex_cfg ex_req 105 @ [Sleep 10]
                     @ failed_events ex_cfg ex_req 105 @ [StatusHalt, MetricHalted])
        MetricFetchStarted = 2
   \<and> count_list (failed_events ex_cfg ex_req 105 @ [Sleep 10]
                     @ failed_events ex_cfg ex_req 105 @ [StatusHalt, MetricHalted])
        MetricFetchRetried = 0"
  by (simp add: processSealedHeight_def processFetchRequest_def fetchExecutionData_def
        ex_env_def ex_cfg_def ex_st_def ex_req_def emit_def failed_events_def status_Halt_def
        isInvalidBlobError_def isBlobNotFoundError_def errors_Is_opt_def
        backoff_Next_def WithJitterPercent_def WithCappedDuration_def exponential_def)

text \<open>
  C8, amended: in every run of the retry wrapper the fetch-retried metric is recorded
  once for every attempt after the first that returns to the wrapper, and not for an
  attempt that ends by throwing; the delay slept after attempt \<open>j\<close> is the retry delay
  doubled \<open>j\<close> times, capped at the maximal retry delay, and then jittered to between
  85 and 115 percent of that value. So when the first \<open>n\<close> attempts fail with a retried
  error and the next one succeeds, the wrapper returns nil after \<open>n + 1\<close> attempts with
  \<open>n\<close> fetch-retried metrics and \<open>n\<close> sleeps.
\<close>

theorem retry_metric_and_backoff:
  assumes "0 < RetryDelay cfg" "0 \<le> MaxRetryDelay cfg"
    and "processSealedHeight fuel e cfg st req = (st', r)"
  shows "\<exists>evs. trace st' = trace st @ evs
     \<and> count_list evs MetricFetchRetried = count_list evs MetricFetchStarted - 1 - threw r
     \<and> (\<forall>j<length (sleeps evs).
           sleeps evs ! j =
             WithJitterPercent 15 (rand_Int63n e (gets st + Suc j))
               (min (MaxRetryDelay cfg) (RetryDelay cfg * 2 ^ j))
         \<and> min (MaxRetryDelay cfg) (RetryDelay cfg * 2 ^ j) * 85 div 100 \<le> sleeps evs ! j
         \<and> sleeps evs ! j \<le> min (MaxRetryDelay cfg) (RetryDelay cfg * 2 ^ j) * 115 div 100)
     \<and> ((\<forall>m. ctx_Err e m = None) \<and> results_ByBlockID e (BlockID req) = Inr res \<and>
         (\<forall>j<n. \<exists>err. eds_Get e (gets st + j) (WithTimeout (FetchTimeout cfg))
                          (ExecutionDataID res) = Inl err
                   \<and> isRetried err \<and> \<not> isInvalidBlobError (Some err)) \<and>
         eds_Get e (gets st + n) (WithTimeout (FetchTimeout cfg)) (ExecutionDataID res) = Inr d \<and>
         eds_Add e (gets st + n) SignalerCtx d = None \<and> n < fuel
         \<longrightarrow> r = Some (Return None) \<and> count_list evs MetricFetchRetried = n
             \<and> length (sleeps evs) = n \<and> gets st' = gets st + Suc n)"
proof -
  have rd: "retry_Do fuel e cfg 0 st req = (st', r)"
    using assms(1,3) by (simp add: processSealedHeight_def)
  have gen: "\<exists>evs. trace st' = trace st @ evs
       \<and> count_list evs MetricFetchRetried = count_list evs MetricFetchStarted - 1 - threw r
       \<and> sleeps evs = map (\<lambda>j. backoff_Next e cfg j (gets st + Suc j))
                         [0..<length (sleeps evs)]"
  proof (cases "results_ByBlockID e (BlockID req)")
    case (Inl lerr)
    from retry_Do_no_result [OF Inl, of fuel cfg 0 st] rd
    have "trace st' = trace st @ []" by simp
    then show ?thesis by fastforce
  next
    case (Inr res')
    from retry_Do_metric [OF Inr rd] show ?thesis by auto
  qed
  then obtain evs where evs: "trace st' = trace st @ evs"
    "count_list evs MetricFetchRetried = count_list evs MetricFetchStarted - 1 - threw r"
    "sleeps evs = map (\<lambda>j. backoff_Next e cfg j (gets st + Suc j)) [0..<length (sleeps evs)]"
    by blast
  have nth: "\<forall>j<length (sleeps evs). sleeps evs ! j =
               WithJitterPercent 15 (rand_Int63n e (gets st + Suc j))
                 (min (MaxRetryDelay cfg) (RetryDelay cfg * 2 ^ j))"
  proof (intro allI impI)
    fix j assume j: "j < length (sleeps evs)"
    have "sleeps evs ! j = map (\<lambda>j. backoff_Next e cfg j (gets st + Suc j))
                             [0..<length (sleeps evs)] ! j"
      using evs(3) by simp
    also have "\<dots> = backoff_Next e cfg j (gets st + Suc j)" using j by simp
    finally show "sleeps evs ! j =
               WithJitterPercent 15 (rand_Int63n e (gets st + Suc j))
                 (min (MaxRetryDelay cfg) (RetryDelay cfg * 2 ^ j))"
      by (simp add: backoff_Next_def WithCappedDuration_def exponential_def)
  qed
  have nn: "\<And>j. 0 \<le> min (MaxRetryDelay cfg) (RetryDelay cfg * 2 ^ j)"
    using assms(1,2) by simp
  have bounds: "\<forall>j<length (sleeps evs).
      min (MaxRetryDelay cfg) (RetryDelay cfg * 2 ^ j) * 85 div 100 \<le> sleeps evs ! j
      \<and> sleeps evs ! j \<le> min (MaxRetryDelay cfg) (RetryDelay cfg * 2 ^ j) * 115 div 100"
    using nth WithJitterPercent_bounds [OF nn] by simp
  have script: "(\<forall>m. ctx_Err e m = None) \<and> results_ByBlockID e (BlockID req) = Inr res \<and>
         (\<forall>j<n. \<exists>err. eds_Get e (gets st + j) (WithTimeout (FetchTimeout cfg))
                          (ExecutionDataID res) = Inl err
                   \<and> isRetried err \<and> \<not> isInvalidBlobError (Some err)) \<and>
         eds_Get e (gets st + n) (WithTimeout (FetchTimeout cfg)) (ExecutionDataID res) = Inr d \<and>
         eds_Add e (gets st + n) SignalerCtx d = None \<and> n < fuel
         \<longrightarrow> r = Some (Return None) \<and> count_list evs MetricFetchRetried = n
             \<and> length (sleeps evs) = n \<and> gets st' = gets st + Suc n"
  proof
    assume h: "(\<forall>m. ctx_Err e m = None) \<and> results_ByBlockID e (BlockID req) = Inr res \<and>
         (\<forall>j<n. \<exists>err. eds_Get e (gets st + j) (WithTimeout (FetchTimeout cfg))
                          (ExecutionDataID res) = Inl err
                   \<and> isRetried err \<and> \<not> isInvalidBlobError (Some err)) \<and>
         eds_Get e (gets st + n) (WithTimeout (FetchTimeout cfg)) (ExecutionDataID res) = Inr d \<and>
         eds_Add e (gets st + n) SignalerCtx d = None \<and> n < fuel"
    then have f: "fuel = Suc n + (fuel - Suc n)" by simp
    from h have h1: "\<forall>m. ctx_Err e m = None"
      and h2: "results_ByBlockID e (BlockID req) = Inr res"
      and h3: "\<forall>j<n. \<exists>err. eds_Get e (gets st + j) (WithTimeout (FetchTimeout cfg))
                          (ExecutionDataID res) = Inl err
                   \<and> isRetried err \<and> \<not> isInvalidBlobError (Some err)"
      and h4: "eds_Get e (gets st + n) (WithTimeout (FetchTimeout cfg)) (ExecutionDataID res)
                 = Inr d"
      and h5: "eds_Add e (gets st + n) SignalerCtx d = None" by blast+
    from retry_Do_script [OF h1 h2 h3 h4 h5, of "fuel - Suc n" 0] obtain evs2 where s:
      "retry_Do (Suc n + (fuel - Suc n)) e cfg 0 st req =
         (st\<lparr>gets := gets st + Suc n, trace := trace st @ evs2\<rparr>, Some (Return None))"
      "count_list evs2 MetricFetchRetried = n"
      "sleeps evs2 = map (\<lambda>j. backoff_Next e cfg (0 + j) (gets st + Suc j)) [0..<n]"
      by auto
    from s(1) rd f have eq: "st' = st\<lparr>gets := gets st + Suc n, trace := trace st @ evs2\<rparr>"
      "r = Some (Return None)" by simp_all
    then have "evs2 = evs" using evs(1) by simp
    with s(2,3) eq show "r = Some (Return None) \<and> count_list evs MetricFetchRetried = n
             \<and> length (sleeps evs) = n \<and> gets st' = gets st + Suc n" by auto
  qed
  from evs(1,2) nth bounds script show ?thesis by blast
qed

theorem retry_metric_and_backoff_witness:
  "processSealedHeight (Suc (Suc (Suc 0))) ex_env ex_cfg ex_st ex_req =
     (ex_st\<lparr>gets := 3,
            trace := failed_events ex_cfg ex_req 105 @ [Sleep 10]
                     @ failed_events ex_cfg ex_req 105 @ [MetricFetchRetried, Sleep 20]
                     @ MetricFetchStarted # fetched_events ex_cfg ex_req 105 1105
                     @ [MetricFetchRetried]\<rparr>,
      Some (Return None))
   \<and> (\<exists>evs. trace (fst (processSealedHeight (Suc (Suc (Suc 0))) ex_env ex_cfg ex_st ex_req))
               = trace ex_st @ evs
          \<and> count_list evs MetricFetchRetried = 2 \<and> length (sleeps evs) = 2)"
proof -
  let ?res = "\<lparr>ExecutionDataID = 105\<rparr>"
  let ?st' = "ex_st\<lparr>gets := 3,
            trace := failed_events ex_cfg ex_req 105 @ [Sleep 10]
                     @ failed_events ex_cfg ex_req 105 @ [MetricFetchRetried, Sleep 20]
                     @ MetricFetchStarted # fetched_events ex_cfg ex_req 105 1105
                     @ [MetricFetchRetried]\<rparr>"
  have h1: "0 < RetryDelay ex_cfg" "0 \<le> MaxRetryDelay ex_cfg" by (simp_all add: ex_cfg_def)
  have run: "processSealedHeight (Suc (Suc (Suc 0))) ex_env ex_cfg ex_st ex_req
               = (?st', Some (Return None))"
    by (simp add: processSealedHeight_def processFetchRequest_def fetchExecutionData_def
          ex_env_def ex_cfg_def ex_st_def ex_req_def emit_def failed_events_def
          fetched_events_def isInvalidBlobError_def isBlobNotFoundError_def errors_Is_opt_def
          backoff_Next_def WithJitterPercent_def WithCappedDuration_def exponential_def)
  have h: "(\<forall>m. ctx_Err ex_env m = None) \<and>
      results_ByBlockID ex_env (BlockID ex_req) = Inr ?res \<and>
      (\<forall>j<2. \<exists>err. eds_Get ex_env (gets ex_st + j) (WithTimeout (FetchTimeout ex_cfg))
                          (ExecutionDataID ?res) = Inl err
                   \<and> isRetried err \<and> \<not> isInvalidBlobError (Some err)) \<and>
      eds_Get ex_env (gets ex_st + 2) (WithTimeout (FetchTimeout ex_cfg))
        (ExecutionDataID ?res) = Inr 1105 \<and>
      eds_Add ex_env (gets ex_st + 2) SignalerCtx 1105 = None \<and>
      2 < Suc (Suc (Suc 0))"
    by (simp add: ex_env_def ex_st_def ex_req_def isRetried_def isInvalidBlobError_def
          isBlobNotFoundError_def errors_Is_opt_def)
  from retry_metric_and_backoff [OF h1 run, where res = ?res and n = 2 and d = 1105] h
  obtain evs where "trace ?st' = trace ex_st @ evs"
    "count_list evs MetricFetchRetried = 2" "length (sleeps evs) = 2"
    by blast
  with run show ?thesis by simp
qed

subsection \<open>Which errors are retried\<close>

text \<open>
  The original reading of C4 fails twice. A generic transport error of \<open>eds.Get\<close> is
  thrown after the first attempt; and when the parent context is cancelled the retry
  wrapper returns the context's error after the attempt instead of retrying.
\<close>

theorem generic_error_thrown_counterexample:
  "processSealedHeight (Suc (Suc 0))
      (ex_env\<lparr>eds_Get := \<lambda>k c i. Inl (Other ''connection reset by peer'')\<rparr>)
      ex_cfg ex_st ex_req =
     (ex_st\<lparr>gets := 1, trace := failed_events ex_cfg ex_req 105\<rparr>,
      Some (Throw (Other ''connection reset by peer'')))
   \<and> processSealedHeight (Suc (Suc 0))
      (ex_env\<lparr>eds_Get := \<lambda>k c i. Inl Canceled,
              ctx_Err := \<lambda>k. if 1 \<le> k then Some Canceled else None\<rparr>)
      ex_cfg ex_st ex_req =
     (ex_st\<lparr>gets := 1, trace := failed_events ex_cfg ex_req 105\<rparr>,
      Some (Return (Some Canceled)))"
  by (simp add: processSealedHeight_def processFetchRequest_def fetchExecutionData_def
        ex_env_def ex_cfg_def ex_st_def ex_req_def emit_def failed_events_def
        isInvalidBlobError_def isBlobNotFoundError_def errors_Is_opt_def)

text \<open>
  C4, amended: a fetch attempt that fails with a blob-not-found, deadline-exceeded or
  cancellation error (and no invalid blob error) returns the error to the retry
  wrapper and throws nothing; as long as the parent context is not cancelled the
  wrapper sleeps and tries again, so that after any number of such failures it is
  still retrying. Any other error that is not an invalid blob error, a generic
  transport error among them, is thrown by the attempt.
\<close>

theorem retried_errors_never_thrown:
  assumes "0 < RetryDelay cfg" "results_ByBlockID e (BlockID req) = Inr res"
  shows "((\<forall>m. ctx_Err e m = None) \<and>
          (\<forall>m. \<exists>err. eds_Get e m (WithTimeout (FetchTimeout cfg)) (ExecutionDataID res) = Inl err
                  \<and> isRetried err \<and> \<not> isInvalidBlobError (Some err))
          \<longrightarrow> (\<exists>evs. processSealedHeight fuel e cfg st req =
                        (st\<lparr>gets := gets st + fuel, trace := trace st @ evs\<rparr>, None)
                     \<and> length (sleeps evs) = fuel))
       \<and> (fetchExecutionData e cfg st (ExecutionDataID res) (Height req) = (st1, Inl err)
          \<and> \<not> isInvalidBlobError (Some err)
          \<longrightarrow> processFetchRequest e cfg st req =
                (st1, if isRetried err then Return (Some err) else Throw err))"
proof (intro conjI impI)
  assume a: "(\<forall>m. ctx_Err e m = None) \<and>
          (\<forall>m. \<exists>err. eds_Get e m (WithTimeout (FetchTimeout cfg)) (ExecutionDataID res) = Inl err
                  \<and> isRetried err \<and> \<not> isInvalidBlobError (Some err))"
  from retry_Do_forever [OF conjunct1 [OF a] assms(2) conjunct2 [OF a], where fuel = fuel and k = 0 and st = st]
  show "\<exists>evs. processSealedHeight fuel e cfg st req =
                        (st\<lparr>gets := gets st + fuel, trace := trace st @ evs\<rparr>, None)
                     \<and> length (sleeps evs) = fuel"
    using assms(1) by (simp add: processSealedHeight_def)
next
  assume "fetchExecutionData e cfg st (ExecutionDataID res) (Height req) = (st1, Inl err)
          \<and> \<not> isInvalidBlobError (Some err)"
  then show "processFetchRequest e cfg st req =
                (st1, if isRetried err then Return (Some err) else Throw err)"
    using assms(2) by (simp add: processFetchRequest_def isRetried_def)
qed

theorem retried_errors_never_thrown_witness:
  "(\<exists>evs. processSealedHeight 7 (ex_env\<lparr>eds_Get := \<lambda>k c i. Inl DeadlineExceeded\<rparr>)
             ex_cfg ex_st ex_req =
            (ex_st\<lparr>gets := 7, trace := evs\<rparr>, None) \<and> length (sleeps evs) = 7)
   \<and> processFetchRequest (ex_env\<lparr>eds_Get := \<lambda>k c i. Inl DeadlineExceeded\<rparr>)
        ex_cfg ex_st ex_req =
       (ex_st\<lparr>gets := 1, trace := failed_events ex_cfg ex_req 105\<rparr>,
        Return (Some DeadlineExceeded))"
proof -
  let ?e = "ex_env\<lparr>eds_Get := \<lambda>k c i. Inl DeadlineExceeded\<rparr>"
  let ?res = "\<lparr>ExecutionDataID = 105\<rparr>"
  let ?st1 = "ex_st\<lparr>gets := 1, trace := failed_events ex_cfg ex_req 105\<rparr>"
  have h1: "0 < RetryDelay ex_cfg" by (simp add: ex_cfg_def)
  have h2: "results_ByBlockID ?e (BlockID ex_req) = Inr ?res"
    by (simp add: ex_env_def ex_req_def)
  have rt: "isRetried DeadlineExceeded" "\<not> isInvalidBlobError (Some DeadlineExceeded)"
    by (simp_all add: isRetried_def isInvalidBlobError_def errors_Is_opt_def)
  have h3: "(\<forall>m. ctx_Err ?e m = None) \<and>
          (\<forall>m. \<exists>err. eds_Get ?e m (WithTimeout (FetchTimeout ex_cfg)) (ExecutionDataID ?res)
                    = Inl err \<and> isRetried err \<and> \<not> isInvalidBlobError (Some err))"
    using rt by (simp add: ex_env_def)
  have h4: "fetchExecutionData ?e ex_cfg ex_st (ExecutionDataID ?res) (Height ex_req)
              = (?st1, Inl DeadlineExceeded) \<and> \<not> isInvalidBlobError (Some DeadlineExceeded)"
    using rt by (simp add: fetchExecutionData_def ex_env_def ex_st_def ex_cfg_def ex_req_def
                   emit_def failed_events_def)
  note th = retried_errors_never_thrown [OF h1 h2, of 7 ex_st ?st1 DeadlineExceeded]
  from th h3 obtain evs where
    "processSealedHeight 7 ?e ex_cfg ex_st ex_req =
       (ex_st\<lparr>gets := gets ex_st + 7, trace := trace ex_st @ evs\<rparr>, None)"
    "length (sleeps evs) = 7" by blast
  then have a: "\<exists>evs. processSealedHeight 7 ?e ex_cfg ex_st ex_req =
            (ex_st\<lparr>gets := 7, trace := evs\<rparr>, None) \<and> length (sleeps evs) = 7"
    by (auto simp: ex_st_def)
  have b: "processFetchRequest ?e ex_cfg ex_st ex_req = (?st1, Return (Some DeadlineExceeded))"
    using th h4 rt by simp
  from a b show ?thesis by blast
qed

subsection \<open>Persisting fetched execution data\<close>

text \<open>
  The original reading of C7 fails: a write to the local blob store that fails with a
  deadline-exceeded error is not thrown. The attempt returns the error, the retry
  wrapper sleeps, and the second attempt gets and writes the data again.
\<close>

theorem persist_failure_retried_counterexample:
  "processSealedHeight (Suc (Suc 0))
      (ex_env\<lparr>eds_Get := \<lambda>k c i. Inr (i + 1000),
              eds_Add := \<lambda>k c d. if k = 0 then Some DeadlineExceeded else None\<rparr>)
      ex_cfg ex_st ex_req =
     (ex_st\<lparr>gets := 2,
            trace := [MetricFetchStarted, EdsGet (WithTimeout 300) 105, EdsAdd SignalerCtx 1105,
                      MetricFetchFinished False 10, Sleep 10, MetricFetchStarted]
                     @ fetched_events ex_cfg ex_req 105 1105 @ [MetricFetchRetried]\<rparr>,
      Some (Return None))"
  by (simp add: processSealedHeight_def processFetchRequest_def fetchExecutionData_def
        ex_env_def ex_cfg_def ex_st_def ex_req_def emit_def fetched_events_def
        isInvalidBlobError_def isBlobNotFoundError_def errors_Is_opt_def
        backoff_Next_def WithJitterPercent_def WithCappedDuration_def exponential_def)

text \<open>
  C7, amended: after a successful \<open>eds.Get\<close> under the fetch-timeout context the
  requester writes the execution data with \<open>eds.Add\<close> under the signaler (parent)
  context: what \<open>eds.Add\<close> would answer under any other context has no influence on the
  fetch. A failure of the write is thrown to the parent scope, and the fetch is not
  retried, unless the error is a blob-not-found, deadline-exceeded or cancellation
  error and no invalid blob error: an invalid blob error halts the requester and
  throws \<open>ErrRequesterHalted\<close>, any other such error is thrown wrapped.
\<close>

theorem persist_under_parent_context:
  "((\<forall>k d. f k SignalerCtx d = eds_Add e k SignalerCtx d)
      \<longrightarrow> fetchExecutionData (e\<lparr>eds_Add := f\<rparr>) cfg st i h = fetchExecutionData e cfg st i h)
   \<and> (eds_Get e (gets st) (WithTimeout (FetchTimeout cfg)) i = Inr d
      \<longrightarrow> trace (fst (fetchExecutionData e cfg st i h)) =
            trace st @ [MetricFetchStarted, EdsGet (WithTimeout (FetchTimeout cfg)) i,
                        EdsAdd SignalerCtx d,
                        MetricFetchFinished (eds_Add e (gets st) SignalerCtx d = None) h])
   \<and> (ctx_Err e (gets st) = None \<and> results_ByBlockID e (BlockID req) = Inr res \<and>
      eds_Get e (gets st) (WithTimeout (FetchTimeout cfg)) (ExecutionDataID res) = Inr d \<and>
      eds_Add e (gets st) SignalerCtx d = Some aerr \<and>
      (isInvalidBlobError (Some aerr) \<or> \<not> isRetried aerr)
      \<longrightarrow> (\<exists>st'. retry_Do (Suc fuel) e cfg k st req =
               (st', Some (Throw (if isInvalidBlobError (Some aerr) then ErrRequesterHalted
                    else Errorf ''failed to write execution data to blobstore'' aerr)))
             \<and> gets st' = Suc (gets st)))"
proof (intro conjI impI)
  assume "\<forall>k d. f k SignalerCtx d = eds_Add e k SignalerCtx d"
  then show "fetchExecutionData (e\<lparr>eds_Add := f\<rparr>) cfg st i h = fetchExecutionData e cfg st i h"
    by (simp add: fetchExecutionData_def Let_def split: sum.splits)
next
  assume "eds_Get e (gets st) (WithTimeout (FetchTimeout cfg)) i = Inr d"
  then show "trace (fst (fetchExecutionData e cfg st i h)) =
            trace st @ [MetricFetchStarted, EdsGet (WithTimeout (FetchTimeout cfg)) i,
                        EdsAdd SignalerCtx d,
                        MetricFetchFinished (eds_Add e (gets st) SignalerCtx d = None) h]"
    by (simp add: fetchExecutionData_def emit_def Let_def split: option.splits)
next
  assume a: "ctx_Err e (gets st) = None \<and> results_ByBlockID e (BlockID req) = Inr res \<and>
      eds_Get e (gets st) (WithTimeout (FetchTimeout cfg)) (ExecutionDataID res) = Inr d \<and>
      eds_Add e (gets st) SignalerCtx d = Some aerr \<and>
      (isInvalidBlobError (Some aerr) \<or> \<not> isRetried aerr)"
  let ?w = "Errorf ''failed to write execution data to blobstore'' aerr"
  have w: "isInvalidBlobError (Some ?w) = isInvalidBlobError (Some aerr)"
    "isRetried ?w = isRetried aerr"
    by (simp_all add: isInvalid_Errorf isRetried_Errorf)
  obtain st1 where f: "fetchExecutionData e cfg st (ExecutionDataID res) (Height req)
                         = (st1, Inl ?w)" "gets st1 = Suc (gets st)"
    using a by (simp add: fetchExecutionData_def emit_def Let_def)
  show "\<exists>st'. retry_Do (Suc fuel) e cfg k st req =
               (st', Some (Throw (if isInvalidBlobError (Some aerr) then ErrRequesterHalted
                    else ?w)))
             \<and> gets st' = Suc (gets st)"
  proof (cases "isInvalidBlobError (Some aerr)")
    case True
    then have "processFetchRequest e cfg st req =
                 (emit MetricHalted (status_Halt st1), Throw ErrRequesterHalted)"
      using a f(1) w by (simp add: processFetchRequest_def)
    then show ?thesis using a True f(2) by (simp add: emit_def status_Halt_def)
  next
    case False
    then have "\<not> isRetried aerr" using a by blast
    then have "processFetchRequest e cfg st req = (st1, Throw ?w)"
      using a f(1) w False by (simp add: processFetchRequest_def isRetried_def)
    then show ?thesis using a False f(2) by simp
  qed
qed

theorem persist_under_parent_context_witness:
  "fetchExecutionData (ex_env\<lparr>eds_Add := \<lambda>k c d. if c = SignalerCtx then None
                                              else Some DeadlineExceeded\<rparr>)
      ex_cfg (ex_st\<lparr>gets := 2\<rparr>) 105 10
     = fetchExecutionData ex_env ex_cfg (ex_st\<lparr>gets := 2\<rparr>) 105 10
   \<and> (\<exists>st'. retry_Do (Suc 4)
        (ex_env\<lparr>eds_Get := \<lambda>k c i. Inr (i + 1000),
                eds_Add := \<lambda>k c d. Some (Other ''disk full'')\<rparr>) ex_cfg 0 ex_st ex_req =
        (st', Some (Throw (Errorf ''failed to write execution data to blobstore''
                             (Other ''disk full''))))
      \<and> gets st' = 1)"
proof -
  let ?f = "\<lambda>k c d. if c = SignalerCtx then None else Some DeadlineExceeded"
  let ?e = "ex_env\<lparr>eds_Get := \<lambda>k c i. Inr (i + 1000),
                eds_Add := \<lambda>k c d. Some (Other ''disk full'')\<rparr>"
  have p: "\<forall>k d. ?f k SignalerCtx d = eds_Add ex_env k SignalerCtx d"
    by (simp add: ex_env_def)
  have a: "fetchExecutionData (ex_env\<lparr>eds_Add := ?f\<rparr>) ex_cfg (ex_st\<lparr>gets := 2\<rparr>) 105 10
     = fetchExecutionData ex_env ex_cfg (ex_st\<lparr>gets := 2\<rparr>) 105 10"
    using persist_under_parent_context
      [where f = ?f and e = ex_env and cfg = ex_cfg and st = "ex_st\<lparr>gets := 2\<rparr>"
         and i = 105 and h = 10] p
    by blast
  have nr: "\<not> isInvalidBlobError (Some (Other ''disk full''))" "\<not> isRetried (Other ''disk full'')"
    by (simp_all add: isInvalidBlobError_def isRetried_def isBlobNotFoundError_def
          errors_Is_opt_def)
  have q: "ctx_Err ?e (gets ex_st) = None \<and>
      results_ByBlockID ?e (BlockID ex_req) = Inr \<lparr>ExecutionDataID = 105\<rparr> \<and>
      eds_Get ?e (gets ex_st) (WithTimeout (FetchTimeout ex_cfg))
        (ExecutionDataID \<lparr>ExecutionDataID = 105\<rparr>) = Inr 1105 \<and>
      eds_Add ?e (gets ex_st) SignalerCtx 1105 = Some (Other ''disk full'') \<and>
      (isInvalidBlobError (Some (Other ''disk full'')) \<or> \<not> isRetried (Other ''disk full''))"
    using nr by (simp add: ex_env_def ex_req_def)
  have b: "\<exists>st'. retry_Do (Suc 4) ?e ex_cfg 0 ex_st ex_req =
        (st', Some (Throw (Errorf ''failed to write execution data to blobstore''
                             (Other ''disk full''))))
      \<and> gets st' = 1"
    using persist_under_parent_context
      [where e = ?e and cfg = ex_cfg and st = ex_st and req = ex_req and fuel = 4 and k = 0
         and res = "\<lparr>ExecutionDataID = 105\<rparr>" and d = 1105 and aerr = "Other ''disk full''"]
      q nr
    by (simp add: ex_st_def del: retry_Do.simps)
  from a b show ?thesis by blast
qed

subsection \<open>The startup check does not refetch what it found missing\<close>

text \<open>
  C2 on the code: \<open>checkExecutionData\<close> returns its flag \<open>missing\<close> where
  \<open>checkDatastore\<close> reads \<open>exists\<close>. A height whose blob is not found, or whose blob
  had a hash mismatch and was deleted, is therefore passed over without a fetch; a
  fetch is made only when the check fails and reports no CID at all.
\<close>

theorem checkDatastore_missing_not_refetched:
  "checkDatastore (Suc (Suc 0)) (ex_env\<lparr>eds_Check := \<lambda>i. ([(3, ErrNotFound)], False)\<rparr>)
      ex_cfg ex_st 10 = (ex_st, Some (Return None))
   \<and> checkDatastore (Suc (Suc 0)) (ex_env\<lparr>eds_Check := \<lambda>i. ([(3, ErrHashMismatch)], False)\<rparr>)
      ex_cfg ex_st 10 = (ex_st\<lparr>trace := [DeleteBlob 3]\<rparr>, Some (Return None))
   \<and> checkExecutionData (ex_env\<lparr>eds_Check := \<lambda>i. ([(3, ErrNotFound)], False)\<rparr>) ex_st 110
      = (ex_st, True, None)
   \<and> checkDatastore (Suc (Suc 0))
        (ex_env\<lparr>eds_Check := \<lambda>i. ([], False), eds_Get := \<lambda>k c i. Inr (i + 1000)\<rparr>)
      ex_cfg ex_st 10
      = (ex_st\<lparr>gets := 1,
               trace := MetricFetchStarted # fetched_events ex_cfg (ex_req\<lparr>BlockID := 10\<rparr>) 110 1110\<rparr>,
         Some (Return None))"
  by (simp add: checkDatastore_def localExecutionDataService_def checkExecutionData_def
        ErrorOrNil_def processSealedHeight_def processFetchRequest_def fetchExecutionData_def
        ex_env_def ex_cfg_def ex_st_def ex_req_def emit_def fetched_events_def
        errors_Is_opt_def)

text \<open>
  In general: when \<open>Check\<close> fails and every CID it lists is not found or has a hash
  mismatch and is deleted, \<open>checkExecutionData\<close> answers \<open>True\<close> with no error as soon
  as the list is not empty, which \<open>checkDatastore\<close> reads as "exists".
\<close>

lemma checkCIDs_missing:
  assumes "\<forall>(c, err) \<in> set cids.
             (errors_Is err ErrNotFound \<or> errors_Is err ErrHashMismatch)
             \<and> bs_DeleteBlob e c = None"
  shows "\<exists>dels. checkCIDs e st cids missing [] =
           (st\<lparr>trace := trace st @ map DeleteBlob dels\<rparr>, missing \<or> cids \<noteq> [], None)"
  using assms
proof (induction cids arbitrary: st missing)
  case Nil
  have "checkCIDs e st [] missing [] =
          (st\<lparr>trace := trace st @ map DeleteBlob []\<rparr>, missing \<or> [] \<noteq> [], None)"
    by (simp add: ErrorOrNil_def)
  then show ?case by blast
next
  case (Cons a cids)
  obtain c err where a: "a = (c, err)" by (cases a)
  have rest: "\<forall>(c, err) \<in> set cids.
             (errors_Is err ErrNotFound \<or> errors_Is err ErrHashMismatch)
             \<and> bs_DeleteBlob e c = None"
    using Cons.prems by simp
  have here: "errors_Is err ErrNotFound \<or> errors_Is err ErrHashMismatch"
    "bs_DeleteBlob e c = None"
    using Cons.prems a by simp_all
  show ?case
  proof (cases "errors_Is err ErrNotFound")
    case True
    from Cons.IH [OF rest, of st True] obtain dels where
      "checkCIDs e st cids True [] =
         (st\<lparr>trace := trace st @ map DeleteBlob dels\<rparr>, True \<or> cids \<noteq> [], None)" by blast
    then have "checkCIDs e st (a # cids) missing [] =
         (st\<lparr>trace := trace st @ map DeleteBlob dels\<rparr>, missing \<or> a # cids \<noteq> [], None)"
      using a True by simp
    then show ?thesis by blast
  next
    case False
    then have hm: "errors_Is err ErrHashMismatch" using here(1) by blast
    from Cons.IH [OF rest, of "emit (DeleteBlob c) st" True] obtain dels where
      "checkCIDs e (emit (DeleteBlob c) st) cids True [] =
         ((emit (DeleteBlob c) st)\<lparr>trace := trace (emit (DeleteBlob c) st) @ map DeleteBlob dels\<rparr>,
          True \<or> cids \<noteq> [], None)" by blast
    then have "checkCIDs e st (a # cids) missing [] =
         (st\<lparr>trace := trace st @ map DeleteBlob (c # dels)\<rparr>, missing \<or> a # cids \<noteq> [], None)"
      using a False hm here(2) by (simp add: emit_def)
    then show ?thesis by blast
  qed
qed

subsection \<open>The first height\<close>



lemma notified_DeleteBlobs: "notified (map DeleteBlob cs) = []"
  by (induction cs) simp_all














subsection \<open>A requester that comes up halted\<close>

lemma bootstrap_halted:
  assumes "status_Load e = Inr (n, True)"
  shows "bootstrap fuel e cfg st =
           (st\<lparr>halted := True, lastNotified := n, trace := trace st @ [LogHalting]\<rparr>,
            Some (Return ()))"
  using assms by (simp add: bootstrap_def status_Load_state_def emit_def)

lemma step_halted:
  assumes "status_Load e = Inr (n, True)"
    and "\<not> blocks_started c" "\<not> ready_boot c" "set (trace (comp_state c)) \<subseteq> {LogHalting}"
  shows "\<not> blocks_started (step e cfg a c) \<and> \<not> ready_boot (step e cfg a c)
         \<and> set (trace (comp_state (step e cfg a c))) \<subseteq> {LogHalting}"
proof (cases a)
  case (Boot fuel)
  then show ?thesis using assms(2-4) bootstrap_halted [OF assms(1)] by auto
next
  case (NotifyJob h job)
  have "\<not> list_ex (fetched_for h) (trace (comp_state c))"
    using assms(4) by (auto simp: list_ex_iff fetched_for_def)
  then show ?thesis using NotifyJob assms(2-4) by simp
next
  case (Subscribe fn)
  then show ?thesis using assms(2-4) by (simp add: AddOnExecutionDataFetchedConsumer_def)
qed (use assms(2-4) in auto)

text \<open>
  C5: when the persisted halted flag that the bootstrap worker loads is true, the
  bootstrap worker logs the halt and returns without signalling ready; and under
  every schedule of the workers the block consumer is never started and the trace of
  the component holds nothing but the log of the halt: no fetch is dispatched and no
  subscriber is called.
\<close>

theorem halted_requester_does_nothing:
  assumes "status_Load e = Inr (n, True)"
    and "\<not> blocks_started c" "\<not> ready_boot c" "set (trace (comp_state c)) \<subseteq> {LogHalting}"
  shows "bootstrap fuel e cfg st =
           (st\<lparr>halted := True, lastNotified := n, trace := trace st @ [LogHalting]\<rparr>,
            Some (Return ()))
         \<and> \<not> blocks_started (run e cfg acts c) \<and> \<not> ready_boot (run e cfg acts c)
         \<and> set (trace (comp_state (run e cfg acts c))) \<subseteq> {LogHalting}"
proof -
  have "\<not> blocks_started (run e cfg acts c) \<and> \<not> ready_boot (run e cfg acts c)
         \<and> set (trace (comp_state (run e cfg acts c))) \<subseteq> {LogHalting}"
    using assms(2-4)
  proof (induction acts arbitrary: c)
    case Nil
    then show ?case by simp
  next
    case (Cons a acts)
    from step_halted [OF assms(1) Cons.prems, of cfg a]
    have "\<not> blocks_started (step e cfg a c)" "\<not> ready_boot (step e cfg a c)"
      "set (trace (comp_state (step e cfg a c))) \<subseteq> {LogHalting}" by blast+
    from Cons.IH [OF this] show ?case by simp
  qed
  with bootstrap_halted [OF assms(1), of fuel cfg st] show ?thesis by blast
qed

theorem halted_requester_does_nothing_witness:
  "status_Load (ex_env\<lparr>status_Load := Inr (10, True)\<rparr>) = Inr (10, True)
   \<and> \<not> blocks_started (run (ex_env\<lparr>status_Load := Inr (10, True)\<rparr>) ex_cfg ex_schedule
                          (new_component ex_cfg))
   \<and> \<not> ready_boot (run (ex_env\<lparr>status_Load := Inr (10, True)\<rparr>) ex_cfg ex_schedule
                      (new_component ex_cfg))
   \<and> set (trace (comp_state (run (ex_env\<lparr>status_Load := Inr (10, True)\<rparr>) ex_cfg
                                ex_schedule (new_component ex_cfg)))) \<subseteq> {LogHalting}"
proof -
  have l: "status_Load (ex_env\<lparr>status_Load := Inr (10, True)\<rparr>) = Inr (10, True)" by simp
  have i: "\<not> blocks_started (new_component ex_cfg)" "\<not> ready_boot (new_component ex_cfg)"
    "set (trace (comp_state (new_component ex_cfg))) \<subseteq> {LogHalting}"
    by (simp_all add: new_component_def)
  from halted_requester_does_nothing [OF l i, where cfg = ex_cfg and acts = ex_schedule] l
  show ?thesis by blast
qed

text \<open>
  The same schedule on a requester that is not halted: the bootstrap worker signals
  ready, the block consumer starts, the fetch job completes after two retries and the
  subscriber is notified. With the halted flag loaded, the bootstrap worker only logs.
\<close>

lemma schedule_examples:
  "trace (comp_state (run (ex_env\<lparr>status_Load := Inr (9, False)\<rparr>) ex_cfg ex_schedule
                        (new_component ex_cfg))) =
     [WorkerReady,
      MetricFetchStarted, EdsGet (WithTimeout 300) 105, MetricFetchFinished False 10, Sleep 10,
      MetricFetchStarted, EdsGet (WithTimeout 300) 105, MetricFetchFinished False 10,
      MetricFetchRetried, Sleep 20,
      MetricFetchStarted, EdsGet (WithTimeout 300) 105, EdsAdd SignalerCtx 1105,
      MetricFetchFinished True 10,
      StatusFetched \<lparr>BlockID = 5, Height = 10, ExecutionData = Some 1105\<rparr>,
      MetricFetchRetried, JobComplete,
      Callback 1 1105, MetricNotificationSent 10, JobComplete]"
  "trace (comp_state (run (ex_env\<lparr>status_Load := Inr (10, True)\<rparr>) ex_cfg ex_schedule
                        (new_component ex_cfg))) = [LogHalting]"
  by (simp_all add: ex_schedule_def new_component_def bootstrap_def status_Load_state_def
        checkDatastore_def localExecutionDataService_def rootHeight_def
        processBlockJob_def processSealedHeight_def processFetchRequest_def
        fetchExecutionData_def processNotificationJob_def processNotification_def
        notifyConsumers_def AddOnExecutionDataFetchedConsumer_def fetched_for_def
        ex_env_def ex_cfg_def emit_def
        isInvalidBlobError_def isBlobNotFoundError_def errors_Is_opt_def
        backoff_Next_def WithJitterPercent_def WithCappedDuration_def exponential_def)

end
